theory Spec2Isabelle
  imports Main "HOL-Library.Sublist"
begin

section \<open>JSON values and the Python operations applied to them\<close>

text \<open>
  The server receives a tool name and an argument dictionary (\<^verbatim>\<open>Dict[str, Any]\<close>) decoded
  from JSON. A value of type \<^verbatim>\<open>Any\<close> is a \<open>json\<close> value; a dictionary is an association
  list in insertion order, looked up with \<open>map_of\<close>. Floating-point numbers are not
  modelled.
\<close>

datatype json =
    JNull
  | JBool bool
  | JInt int
  | JStr string
  | JList "json list"
  | JObj "(string \<times> json) list"

type_synonym pydict = "(string \<times> json) list"

text \<open>The exceptions the code can raise. A KeyError carries the missing key; the others
  carry a message, which for TypeError and OSError abbreviates the interpreter's text.\<close>

datatype error =
    KeyError string
  | ValidationError string
  | ValueError string
  | TypeError string
  | OSError string

definition bind :: "error + 'a \<Rightarrow> ('a \<Rightarrow> error + 'b) \<Rightarrow> error + 'b" where
  "bind m f = (case m of Inl e \<Rightarrow> Inl e | Inr x \<Rightarrow> f x)"

text \<open>\<^verbatim>\<open>d[k]\<close> raises KeyError on a missing key; \<^verbatim>\<open>d.get(k, default)\<close> does not.\<close>

definition subscript :: "pydict \<Rightarrow> string \<Rightarrow> error + json" where
  "subscript d k = (case map_of d k of None \<Rightarrow> Inl (KeyError k) | Some v \<Rightarrow> Inr v)"

definition dict_get :: "pydict \<Rightarrow> string \<Rightarrow> json \<Rightarrow> json" where
  "dict_get d k dflt = (case map_of d k of None \<Rightarrow> dflt | Some v \<Rightarrow> v)"

text \<open>Truth value of an object in an \<^verbatim>\<open>if\<close>.\<close>

fun truthy :: "json \<Rightarrow> bool" where
  "truthy JNull = False"
| "truthy (JBool b) = b"
| "truthy (JInt n) = (n \<noteq> 0)"
| "truthy (JStr s) = (s \<noteq> [])"
| "truthy (JList xs) = (xs \<noteq> [])"
| "truthy (JObj kvs) = (kvs \<noteq> [])"

text \<open>\<^verbatim>\<open>sep.join(xs)\<close>.\<close>

fun join :: "string \<Rightarrow> string list \<Rightarrow> string" where
  "join sep [] = []"
| "join sep [x] = x"
| "join sep (x # y # ys) = x @ sep @ join sep (y # ys)"

text \<open>Decimal rendering of integers, as \<^verbatim>\<open>str(n)\<close> and f-strings produce it.\<close>

fun str_nat :: "nat \<Rightarrow> string" where
  "str_nat n =
     (if n < 10 then [''0123456789'' ! n]
      else str_nat (n div 10) @ [''0123456789'' ! (n mod 10)])"

declare str_nat.simps [simp del]

definition str_int :: "int \<Rightarrow> string" where
  "str_int i = (if i < 0 then CHR ''-'' # str_nat (nat (- i)) else str_nat (nat i))"

text \<open>
  \<^verbatim>\<open>repr\<close> of a string: single quotes unless the string holds a single quote and no
  double quote; backslash, the chosen quote, tab, newline and carriage return are
  escaped, other control characters are written \<^verbatim>\<open>\xNN\<close>. A character here is a byte,
  so text outside ASCII appears as its UTF-8 bytes.
\<close>

definition repr_char :: "char \<Rightarrow> char \<Rightarrow> string" where
  "repr_char q c =
     (if c = CHR 0x5C then [CHR 0x5C, CHR 0x5C]
      else if c = q then [CHR 0x5C, q]
      else if c = CHR 0x09 then [CHR 0x5C, CHR ''t'']
      else if c = CHR 0x0A then [CHR 0x5C, CHR ''n'']
      else if c = CHR 0x0D then [CHR 0x5C, CHR ''r'']
      else if (of_char c :: nat) < 32 \<or> c = CHR 0x7F then
        [CHR 0x5C, CHR ''x'', ''0123456789abcdef'' ! (of_char c div 16),
         ''0123456789abcdef'' ! (of_char c mod 16)]
      else [c])"

definition repr_str :: "string \<Rightarrow> string" where
  "repr_str s =
     (let q = (if CHR 0x27 \<in> set s \<and> CHR 0x22 \<notin> set s then CHR 0x22 else CHR 0x27)
      in q # concat (map (repr_char q) s) @ [q])"

primrec py_repr :: "json \<Rightarrow> string" where
  "py_repr JNull = ''None''"
| "py_repr (JBool b) = (if b then ''True'' else ''False'')"
| "py_repr (JInt n) = str_int n"
| "py_repr (JStr s) = repr_str s"
| "py_repr (JList xs) = ''['' @ join '', '' (map py_repr xs) @ '']''"
| "py_repr (JObj kvs) =
     ''{'' @ join '', '' (map (\<lambda>kv. fst kv @ '': '' @ snd kv)
                            (map (map_prod repr_str py_repr) kvs)) @ ''}''"

text \<open>\<^verbatim>\<open>str(v)\<close>, which is what an f-string field \<^verbatim>\<open>{v}\<close> inserts.\<close>

definition py_str :: "json \<Rightarrow> string" where
  "py_str v = (case v of JStr s \<Rightarrow> s | _ \<Rightarrow> py_repr v)"

text \<open>Reading a key of a JSON object; \<open>None\<close> when the value is no object or lacks the key.\<close>

definition jget :: "string \<Rightarrow> json \<Rightarrow> json option" where
  "jget k v = (case v of JObj kvs \<Rightarrow> map_of kvs k | _ \<Rightarrow> None)"

section \<open>Config models\<close>

text \<open>
  The three pydantic models. Field names carry the model's prefix, since record fields
  share one name space. Defaults (\<^verbatim>\<open>description = ""\<close>, \<^verbatim>\<open>tags = []\<close>,
  \<^verbatim>\<open>type = "probe"\<close>, \<^verbatim>\<open>tolerance = True\<close>, \<^verbatim>\<open>type = "action"\<close>) are filled in by
  the constructors below.
\<close>

record ExperimentConfig =
  title :: string
  description :: string
  aws_region :: string
  tags :: "string list"

record ProbeConfig =
  probe_name :: string
  probe_type :: string
  probe_module :: string
  probe_func :: string
  probe_arguments :: pydict
  probe_tolerance :: json

record ActionConfig =
  action_name :: string
  action_type :: string
  action_module :: string
  action_func :: string
  action_arguments :: pydict

text \<open>
  A \<^verbatim>\<open>str\<close> field accepts a string and nothing else that JSON can carry (pydantic 2);
  any other value makes the constructor raise ValidationError.
\<close>

definition validate_str :: "json \<Rightarrow> string option" where
  "validate_str v = (case v of JStr s \<Rightarrow> Some s | _ \<Rightarrow> None)"

text \<open>\<^verbatim>\<open>ExperimentConfig(title=t, description=d, aws_region=r)\<close>; \<open>d\<close> is always an f-string.\<close>

definition mk_ExperimentConfig :: "json \<Rightarrow> string \<Rightarrow> json \<Rightarrow> error + ExperimentConfig" where
  "mk_ExperimentConfig t d r =
     (case (validate_str t, validate_str r) of
        (Some t', Some r') \<Rightarrow>
          Inr \<lparr>title = t', description = d, aws_region = r', tags = []\<rparr>
      | _ \<Rightarrow> Inl (ValidationError ''ExperimentConfig''))"

text \<open>\<^verbatim>\<open>ProbeConfig(name=n, module=m, func=f, arguments=a)\<close> with constant strings.\<close>

definition mk_ProbeConfig :: "string \<Rightarrow> string \<Rightarrow> string \<Rightarrow> pydict \<Rightarrow> ProbeConfig" where
  "mk_ProbeConfig n m f a =
     \<lparr>probe_name = n, probe_type = ''probe'', probe_module = m, probe_func = f,
      probe_arguments = a, probe_tolerance = JBool True\<rparr>"

text \<open>\<^verbatim>\<open>ActionConfig(name=n, module=m, func=f, arguments=a)\<close> for strings \<open>n\<close>, \<open>m\<close>, \<open>f\<close>.\<close>

definition mk_ActionConfig :: "string \<Rightarrow> string \<Rightarrow> string \<Rightarrow> pydict \<Rightarrow> ActionConfig" where
  "mk_ActionConfig n m f a =
     \<lparr>action_name = n, action_type = ''action'', action_module = m,
      action_func = f, action_arguments = a\<rparr>"

text \<open>The same constructor when name and func are one value taken from the arguments,
  which the model validates as a string.\<close>

definition mk_ActionConfig_dyn :: "json \<Rightarrow> string \<Rightarrow> pydict \<Rightarrow> error + ActionConfig" where
  "mk_ActionConfig_dyn n m a =
     (case validate_str n of
        Some n' \<Rightarrow> Inr (mk_ActionConfig n' m n' a)
      | None \<Rightarrow> Inl (ValidationError ''ActionConfig''))"

section \<open>Document assembler\<close>

definition provider :: "string \<Rightarrow> string \<Rightarrow> pydict \<Rightarrow> json" where
  "provider m f a =
     JObj [(''type'', JStr ''python''), (''module'', JStr m), (''func'', JStr f),
           (''arguments'', JObj a)]"

definition render_probe :: "ProbeConfig \<Rightarrow> json" where
  "render_probe p =
     JObj [(''type'', JStr (probe_type p)), (''name'', JStr (probe_name p)),
           (''provider'', provider (probe_module p) (probe_func p) (probe_arguments p)),
           (''tolerance'', probe_tolerance p)]"

definition render_action :: "ActionConfig \<Rightarrow> json" where
  "render_action a =
     JObj [(''type'', JStr (action_type a)), (''name'', JStr (action_name a)),
           (''provider'', provider (action_module a) (action_func a) (action_arguments a))]"

definition generate_experiment_json ::
  "ExperimentConfig \<Rightarrow> ProbeConfig list \<Rightarrow> ActionConfig list \<Rightarrow> ActionConfig list \<Rightarrow> json" where
  "generate_experiment_json config probes actions rollbacks =
     JObj [(''version'', JStr ''1.0.0''),
           (''title'', JStr (title config)),
           (''description'', JStr (description config)),
           (''tags'', JList (map JStr (tags config))),
           (''configuration'', JObj [(''aws_region'', JStr (aws_region config))]),
           (''steady-state-hypothesis'',
              JObj [(''title'', JStr ''System is in steady state''),
                    (''probes'', JList (map render_probe probes))]),
           (''method'', JList (map render_action actions)),
           (''rollbacks'', JList (map render_action rollbacks))]"

text \<open>Accessors for the three ordered sections of a document.\<close>

definition doc_probes :: "json \<Rightarrow> json option" where
  "doc_probes doc = Option.bind (jget ''steady-state-hypothesis'' doc) (jget ''probes'')"

definition doc_method :: "json \<Rightarrow> json option" where
  "doc_method doc = jget ''method'' doc"

definition doc_rollbacks :: "json \<Rightarrow> json option" where
  "doc_rollbacks doc = jget ''rollbacks'' doc"

definition step_arguments :: "json \<Rightarrow> json option" where
  "step_arguments step = Option.bind (jget ''provider'' step) (jget ''arguments'')"

definition step_name :: "json \<Rightarrow> json option" where
  "step_name step = jget ''name'' step"

definition step_module :: "json \<Rightarrow> json option" where
  "step_module step = Option.bind (jget ''provider'' step) (jget ''module'')"

definition step_commands :: "json \<Rightarrow> json option" where
  "step_commands step =
     Option.bind (Option.bind (step_arguments step) (jget ''parameters'')) (jget ''commands'')"


section \<open>Environment: file system, temporary files, subprocesses\<close>

text \<open>
  What a call can observe and change outside its arguments. \<open>files\<close> maps each existing
  path to its content; \<open>writable p\<close> tells whether \<^verbatim>\<open>open(p, "w")\<close> succeeds;
  \<open>next_tmp\<close> determines the name the next temporary file gets; \<open>temp_write t\<close> tells
  whether writing and closing the temporary file \<open>t\<close> succeeds or raises; \<open>calls\<close> is the
  log of subprocess invocations, each with the file system the child process finds
  (\<open>seen\<close>); \<open>proc\<close> is the behaviour of the external CLI, an injected capability;
  \<open>dumps\<close> is \<^verbatim>\<open>json.dumps(_, indent=2)\<close>, a library function taken as given. Writing to
  a file that \<^verbatim>\<open>open(p, "w")\<close> has opened succeeds, and a child process leaves \<open>files\<close> as
  it is.
\<close>

datatype proc_outcome =
    Completed int string string
  | TimeoutExpired
  | Raised string

record call =
  cmd :: "json list"
  cwd :: json
  timeout :: nat
  seen :: "string \<rightharpoonup> string"

text \<open>What happens when the serialised document is written to a newly created temporary
  file and the file is closed: both succeed, or one of them raises OSError with a message
  (a full disk, say) after some part of the text has reached the file.\<close>

datatype write_outcome =
    Written
  | WriteFailed string string

record env =
  files :: "string \<rightharpoonup> string"
  writable :: "string \<Rightarrow> bool"
  getcwd :: string
  next_tmp :: nat
  temp_write :: "string \<Rightarrow> write_outcome"
  calls :: "call list"
  proc :: "call \<Rightarrow> proc_outcome"
  dumps :: "json \<Rightarrow> string"

definition nl :: string where
  "nl = [CHR 0x0A]"

text \<open>\<^verbatim>\<open>str(e)\<close> for a caught exception: a KeyError shows the \<^verbatim>\<open>repr\<close> of its key.\<close>

fun exc_str :: "error \<Rightarrow> string" where
  "exc_str (KeyError k) = repr_str k"
| "exc_str (ValidationError m) = m"
| "exc_str (ValueError m) = m"
| "exc_str (TypeError m) = m"
| "exc_str (OSError m) = m"

text \<open>
  \<^verbatim>\<open>os.path.exists(p)\<close>. The tools' schemas type every path as a string. None, a list or
  a dict raise TypeError; an integer would name a file descriptor, which the model does
  not follow: it treats every value that is no string as that TypeError.
\<close>

definition path_exists :: "env \<Rightarrow> json \<Rightarrow> error + bool" where
  "path_exists e p =
     (case p of
        JStr s \<Rightarrow> Inr (files e s \<noteq> None)
      | _ \<Rightarrow> Inl (TypeError ''stat: path should be string, bytes, os.PathLike or integer''))"

text \<open>
  \<^verbatim>\<open>with open(target, "w") as f: json.dump(doc, f, indent=2)\<close>: when the file opens, it
  holds the serialised document afterwards, replacing what was there. Values that are
  no string are treated as for \<open>path_exists\<close>.
\<close>

definition write_json :: "env \<Rightarrow> json \<Rightarrow> json \<Rightarrow> (error + unit) \<times> env" where
  "write_json e target doc =
     (case target of
        JStr p \<Rightarrow>
          if writable e p then (Inr (), e\<lparr>files := (files e)(p \<mapsto> dumps e doc)\<rparr>)
          else (Inl (OSError p), e)
      | _ \<Rightarrow> (Inl (TypeError ''expected str, bytes or os.PathLike object''), e))"

text \<open>
  \<^verbatim>\<open>with tempfile.NamedTemporaryFile(mode='w', suffix='.json', delete=False) as f:\<close>
  \<^verbatim>\<open>json.dump(doc, f, indent=2); temp_file = f.name\<close>. The library draws random names and
  retries; here the environment's counter fixes the one candidate name, and a taken name
  is the case in which creation fails and nothing is created. Once the file is created
  it stays (\<^verbatim>\<open>delete=False\<close>): when the dump and the close succeed it holds the content and
  its name is returned; when one of them raises, the exception leaves the \<^verbatim>\<open>with\<close> block,
  the name is never bound, and the file remains with the part that was written.
\<close>

definition tmp_name :: "nat \<Rightarrow> string" where
  "tmp_name n = ''/tmp/tmp'' @ str_nat n @ ''.json''"

definition write_temp :: "env \<Rightarrow> string \<Rightarrow> (error + string) \<times> env" where
  "write_temp e content =
     (let p = tmp_name (next_tmp e) in
      if files e p \<noteq> None then (Inl (OSError ''No usable temporary file name found''), e)
      else
        (case temp_write e p of
           Written \<Rightarrow>
             (Inr p, e\<lparr>files := (files e)(p \<mapsto> content), next_tmp := Suc (next_tmp e)\<rparr>)
         | WriteFailed msg part \<Rightarrow>
             (Inl (OSError msg),
              e\<lparr>files := (files e)(p \<mapsto> part), next_tmp := Suc (next_tmp e)\<rparr>)))"

text \<open>\<^verbatim>\<open>os.unlink(p)\<close>.\<close>

definition unlink :: "env \<Rightarrow> string \<Rightarrow> (error + unit) \<times> env" where
  "unlink e p =
     (if files e p = None
      then (Inl (OSError (''[Errno 2] No such file or directory: '' @ repr_str p)), e)
      else (Inr (), e\<lparr>files := (files e)(p := None)\<rparr>))"

text \<open>\<^verbatim>\<open>subprocess.run(cmd, cwd=cwd, capture_output=True, text=True, timeout=t)\<close>: the call is
  logged and the environment decides its outcome.\<close>

definition subprocess_run :: "env \<Rightarrow> json list \<Rightarrow> json \<Rightarrow> nat \<Rightarrow> proc_outcome \<times> env" where
  "subprocess_run e c d t =
     (let cl = \<lparr>cmd = c, cwd = d, timeout = t, seen = files e\<rparr>
      in (proc e cl, e\<lparr>calls := calls e @ [cl]\<rparr>))"

text \<open>\<^verbatim>\<open>str(e)\<close> of \<^verbatim>\<open>subprocess.TimeoutExpired(cmd, timeout)\<close>.\<close>

definition timeout_message :: "json list \<Rightarrow> nat \<Rightarrow> string" where
  "timeout_message c t =
     ''Command '' @ [CHR 0x27] @ py_repr (JList c) @ [CHR 0x27] @ '' timed out after ''
       @ str_nat t @ '' seconds''"

text \<open>The value every tool returns: one text content item.\<close>

definition text_result :: "string \<Rightarrow> json list" where
  "text_result s = [JObj [(''type'', JStr ''text''), (''text'', JStr s)]]"


section \<open>Generators\<close>

text \<open>
  Each generator first builds the experiment document from its arguments, then writes it
  to the output file and returns a message with a preview. The first part, up to the
  call of \<^verbatim>\<open>generate_experiment_json\<close>, is a function of the arguments alone and is
  defined on its own (\<open>\<dots>_document\<close>); the second part is the same in every generator.
\<close>

definition write_and_report ::
  "env \<Rightarrow> json \<Rightarrow> json \<Rightarrow> string \<Rightarrow> (error + json list) \<times> env" where
  "write_and_report e output_file experiment label =
     (case write_json e output_file experiment of
        (Inl err, e') \<Rightarrow> (Inl err, e')
      | (Inr _, e') \<Rightarrow>
          (Inr (text_result (''Generated '' @ label @ '' experiment: '' @ py_str output_file
                  @ nl @ nl @ ''Experiment preview:'' @ nl @ dumps e experiment)), e'))"

text \<open>The health-check block shared by the two AZ-failure generators: a probe only when
  \<^verbatim>\<open>args.get("health_check_url")\<close> is true in the sense of \<^verbatim>\<open>if\<close>.\<close>

definition health_check_probes :: "pydict \<Rightarrow> ProbeConfig list" where
  "health_check_probes args =
     (if truthy (dict_get args ''health_check_url'' JNull)
      then [mk_ProbeConfig ''health_check'' ''chaoslib.provider.http'' ''get''
              [(''url'', dict_get args ''health_check_url'' JNull),
               (''expected_status'', JInt 200)]]
      else [])"

definition az_failure_document :: "pydict \<Rightarrow> error + json" where
  "az_failure_document args =
     bind (subscript args ''title'') (\<lambda>t.
     bind (subscript args ''az'') (\<lambda>az.
     bind (mk_ExperimentConfig t (''AZ failure test for '' @ py_str az)
             (dict_get args ''aws_region'' (JStr ''us-east-1''))) (\<lambda>config.
       let probes = health_check_probes args;
           actions = [mk_ActionConfig ''fail_az'' ''azchaosaws.ec2.actions'' ''fail_az''
                        [(''az'', az),
                         (''dry_run'', dict_get args ''dry_run'' (JBool False)),
                         (''failure_type'', dict_get args ''failure_type'' (JStr ''network'')),
                         (''state_path'',
                            dict_get args ''state_path'' (JStr ''./fail_az.ec2.json''))]];
           rollbacks = [mk_ActionConfig ''recover_az'' ''azchaosaws.ec2.actions'' ''recover_az''
                          [(''state_path'',
                              dict_get args ''state_path'' (JStr ''./fail_az.ec2.json''))]]
       in Inr (generate_experiment_json config probes actions rollbacks))))"

definition generate_az_failure_experiment ::
  "env \<Rightarrow> pydict \<Rightarrow> (error + json list) \<times> env" where
  "generate_az_failure_experiment e args =
     (case az_failure_document args of
        Inl err \<Rightarrow> (Inl err, e)
      | Inr experiment \<Rightarrow>
          write_and_report e (dict_get args ''output_file'' (JStr ''./az-failure-experiment.json''))
            experiment ''AZ failure'')"

text \<open>The module binds \<^verbatim>\<open>generate_asg_az_failure_experiment\<close>,
  \<^verbatim>\<open>generate_ec2_actions_experiment\<close> and \<^verbatim>\<open>generate_ssm_stress_experiment\<close> twice, each time
  with the same text; the later binding is the one in force. The statements that follow
  a \<^verbatim>\<open>return\<close> inside the earlier bindings are never run.\<close>

definition asg_az_failure_document :: "pydict \<Rightarrow> error + json" where
  "asg_az_failure_document args =
     bind (subscript args ''title'') (\<lambda>t.
     bind (subscript args ''az'') (\<lambda>az.
     bind (mk_ExperimentConfig t (''ASG AZ failure test for '' @ py_str az)
             (dict_get args ''aws_region'' (JStr ''us-east-1''))) (\<lambda>config.
       let probes = health_check_probes args;
           actions = [mk_ActionConfig ''fail_asg_az'' ''azchaosaws.asg.actions'' ''fail_az''
                        [(''az'', az),
                         (''dry_run'', dict_get args ''dry_run'' (JBool False)),
                         (''tags'',
                            dict_get args ''asg_tags''
                              (JList [JObj [(''Key'', JStr ''AZ_FAILURE''),
                                            (''Value'', JStr ''True'')]])),
                         (''state_path'',
                            dict_get args ''state_path'' (JStr ''./fail_az.asg.json''))]];
           rollbacks = [mk_ActionConfig ''recover_asg_az'' ''azchaosaws.asg.actions''
                          ''recover_az''
                          [(''state_path'',
                              dict_get args ''state_path'' (JStr ''./fail_az.asg.json''))]]
       in Inr (generate_experiment_json config probes actions rollbacks))))"

definition generate_asg_az_failure_experiment ::
  "env \<Rightarrow> pydict \<Rightarrow> (error + json list) \<times> env" where
  "generate_asg_az_failure_experiment e args =
     (case asg_az_failure_document args of
        Inl err \<Rightarrow> (Inl err, e)
      | Inr experiment \<Rightarrow>
          write_and_report e
            (dict_get args ''output_file'' (JStr ''./asg-az-failure-experiment.json''))
            experiment ''ASG AZ failure'')"

definition ec2_actions_document :: "pydict \<Rightarrow> error + json" where
  "ec2_actions_document args =
     bind (subscript args ''title'') (\<lambda>t.
     bind (subscript args ''action_type'') (\<lambda>at.
     bind (mk_ExperimentConfig t (''EC2 '' @ py_str at @ '' experiment'')
             (dict_get args ''aws_region'' (JStr ''us-east-1''))) (\<lambda>config.
       let action_args =
             (if truthy (dict_get args ''instance_ids'' JNull)
              then [(''instance_ids'', dict_get args ''instance_ids'' JNull)] else [])
             @ (if truthy (dict_get args ''filters'' JNull)
                then [(''filters'', dict_get args ''filters'' JNull)] else [])
             @ (if truthy (dict_get args ''az'' JNull)
                then [(''az'', dict_get args ''az'' JNull)] else [])
       in bind (mk_ActionConfig_dyn at ''chaosaws.ec2.actions'' action_args) (\<lambda>action.
            Inr (generate_experiment_json config [] [action] [])))))"

definition generate_ec2_actions_experiment ::
  "env \<Rightarrow> pydict \<Rightarrow> (error + json list) \<times> env" where
  "generate_ec2_actions_experiment e args =
     (case ec2_actions_document args of
        Inl err \<Rightarrow> (Inl err, e)
      | Inr experiment \<Rightarrow>
          write_and_report e (dict_get args ''output_file'' (JStr ''./ec2-chaos-experiment.json''))
            experiment (''EC2 '' @ py_str (dict_get args ''action_type'' JNull)))"

text \<open>The generic generator: every argument except the three meta fields becomes an
  argument of the one action.\<close>

definition generic_document :: "pydict \<Rightarrow> string \<Rightarrow> string \<Rightarrow> error + json" where
  "generic_document args module func =
     bind (subscript args ''title'') (\<lambda>t.
     bind (mk_ExperimentConfig t (func @ '' experiment'')
             (dict_get args ''aws_region'' (JStr ''us-east-1''))) (\<lambda>config.
       let action_args =
             filter (\<lambda>kv. fst kv \<notin> set [''title'', ''output_file'', ''aws_region'']) args;
           actions = [mk_ActionConfig func module func action_args]
       in Inr (generate_experiment_json config [] actions [])))"

definition generate_generic_experiment ::
  "env \<Rightarrow> pydict \<Rightarrow> string \<Rightarrow> string \<Rightarrow> (error + json list) \<times> env" where
  "generate_generic_experiment e args module func =
     (case generic_document args module func of
        Inl err \<Rightarrow> (Inl err, e)
      | Inr experiment \<Rightarrow>
          write_and_report e
            (dict_get args ''output_file'' (JStr (''./'' @ func @ ''-experiment.json'')))
            experiment func)"

text \<open>The SSM stress generator builds the shell commands from the stress type.\<close>

definition stress_commands :: "pydict \<Rightarrow> string \<Rightarrow> string list" where
  "stress_commands args stress_type =
     (if stress_type = ''cpu'' then
        [''stress --cpu '' @ py_str (dict_get args ''cpu_cores'' (JInt 2)) @ '' --timeout ''
           @ py_str (dict_get args ''duration_seconds'' (JInt 300)) @ ''s'']
      else if stress_type = ''disk'' then
        (let size_mb = dict_get args ''size_mb'' (JInt 1024);
             duration = dict_get args ''duration_seconds'' (JInt 600);
             path = dict_get args ''path'' (JStr ''/tmp'')
         in [''dd if=/dev/zero of='' @ py_str path @ ''/chaos_fill bs=1M count=''
               @ py_str size_mb,
             ''sleep '' @ py_str duration,
             ''rm -f '' @ py_str path @ ''/chaos_fill''])
      else [''echo '' @ [CHR 0x27] @ ''Unknown stress type'' @ [CHR 0x27]])"

definition ssm_stress_document :: "pydict \<Rightarrow> string \<Rightarrow> error + json" where
  "ssm_stress_document args stress_type =
     bind (subscript args ''title'') (\<lambda>t.
     bind (mk_ExperimentConfig t (''SSM '' @ stress_type @ '' stress experiment'')
             (dict_get args ''aws_region'' (JStr ''us-east-1''))) (\<lambda>config.
       let commands = stress_commands args stress_type
       in bind (subscript args ''instance_ids'') (\<lambda>ids.
            let actions = [mk_ActionConfig (''ssm_'' @ stress_type @ ''_stress'')
                             ''chaosaws.ssm.actions'' ''send_command''
                             [(''instance_ids'', ids),
                              (''document_name'', JStr ''AWS-RunShellScript''),
                              (''parameters'',
                                 JObj [(''commands'', JList (map JStr commands))])]]
            in Inr (generate_experiment_json config [] actions []))))"

definition generate_ssm_stress_experiment ::
  "env \<Rightarrow> pydict \<Rightarrow> string \<Rightarrow> (error + json list) \<times> env" where
  "generate_ssm_stress_experiment e args stress_type =
     (case ssm_stress_document args stress_type of
        Inl err \<Rightarrow> (Inl err, e)
      | Inr experiment \<Rightarrow>
          write_and_report e
            (dict_get args ''output_file''
               (JStr (''./ssm-'' @ stress_type @ ''-stress-experiment.json'')))
            experiment (''SSM '' @ stress_type @ '' stress''))"


section \<open>Subprocess runner\<close>

definition run_experiment :: "env \<Rightarrow> pydict \<Rightarrow> (error + json list) \<times> env" where
  "run_experiment e args =
     (case subscript args ''experiment_file'' of
        Inl err \<Rightarrow> (Inl err, e)
      | Inr experiment_file \<Rightarrow>
          (case path_exists e experiment_file of
             Inl err \<Rightarrow> (Inl err, e)
           | Inr found \<Rightarrow>
               if \<not> found then
                 (Inr (text_result (''Error: Experiment file not found: ''
                         @ py_str experiment_file)), e)
               else
                 (let c = [JStr ''chaos'', JStr ''run'', experiment_file]
                          @ (if truthy (dict_get args ''journal_path'' JNull)
                             then [JStr ''--journal-path'', dict_get args ''journal_path'' JNull]
                             else []);
                      d = dict_get args ''working_directory'' (JStr (getcwd e))
                  in case subprocess_run e c d 3600 of
                       (Completed rc out err, e') \<Rightarrow>
                         (Inr (text_result (''Exit code: '' @ str_int rc @ nl @ nl @ ''STDOUT:''
                                 @ nl @ out @ nl @ nl @ ''STDERR:'' @ nl @ err)), e')
                     | (TimeoutExpired, e') \<Rightarrow>
                         (Inr (text_result
                                 ''Error: Experiment execution timed out after 1 hour''), e')
                     | (Raised msg, e') \<Rightarrow>
                         (Inr (text_result (''Error running experiment: '' @ msg)), e'))))"

definition validate_experiment :: "env \<Rightarrow> pydict \<Rightarrow> (error + json list) \<times> env" where
  "validate_experiment e args =
     (case subscript args ''experiment_file'' of
        Inl err \<Rightarrow> (Inl err, e)
      | Inr experiment_file \<Rightarrow>
          (case path_exists e experiment_file of
             Inl err \<Rightarrow> (Inl err, e)
           | Inr found \<Rightarrow>
               if \<not> found then
                 (Inr (text_result (''Error: Experiment file not found: ''
                         @ py_str experiment_file)), e)
               else
                 (let c = [JStr ''chaos'', JStr ''validate'', experiment_file]
                  in case subprocess_run e c JNull 60 of
                       (Completed rc out err, e') \<Rightarrow>
                         (Inr (text_result (''Validation result: ''
                                 @ (if rc = 0 then ''PASSED'' else ''FAILED'')
                                 @ nl @ nl @ out @ nl @ err)), e')
                     | (TimeoutExpired, e') \<Rightarrow>
                         (Inr (text_result (''Error validating experiment: ''
                                 @ timeout_message c 60)), e')
                     | (Raised msg, e') \<Rightarrow>
                         (Inr (text_result (''Error validating experiment: '' @ msg)), e'))))"

subsection \<open>Rollback from state files\<close>

text \<open>\<^verbatim>\<open>needle in v\<close> for a string needle: substring of a string, element of a list, key of
  a dict; TypeError on a value that is no container.\<close>

definition py_contains :: "string \<Rightarrow> json \<Rightarrow> error + bool" where
  "py_contains needle v =
     (case v of
        JStr s \<Rightarrow> Inr (sublist needle s)
      | JList xs \<Rightarrow> Inr (JStr needle \<in> set xs)
      | JObj kvs \<Rightarrow> Inr (needle \<in> set (map fst kvs))
      | _ \<Rightarrow> Inl (TypeError ''argument is not iterable''))"

text \<open>The values a \<^verbatim>\<open>for\<close> loop draws from \<open>v\<close>: the elements of a list, the characters of
  a string, the keys of a dict; TypeError otherwise.\<close>

definition py_iter :: "json \<Rightarrow> error + json list" where
  "py_iter v =
     (case v of
        JList xs \<Rightarrow> Inr xs
      | JStr s \<Rightarrow> Inr (map (\<lambda>c. JStr [c]) s)
      | JObj kvs \<Rightarrow> Inr (map (\<lambda>kv. JStr (fst kv)) kvs)
      | _ \<Rightarrow> Inl (TypeError ''object is not iterable''))"

text \<open>The module a state file is routed to: \<open>None\<close> is the branch that warns and skips.\<close>

definition rollback_module :: "json \<Rightarrow> error + string option" where
  "rollback_module state_file =
     bind (py_contains ''ec2'' state_file) (\<lambda>is_ec2.
       if is_ec2 then Inr (Some ''azchaosaws.ec2.actions'')
       else bind (py_contains ''asg'' state_file) (\<lambda>is_asg.
         if is_asg then Inr (Some ''azchaosaws.asg.actions'') else Inr None))"

definition rollback_experiment :: "json \<Rightarrow> string \<Rightarrow> json" where
  "rollback_experiment state_file module =
     JObj [(''version'', JStr ''1.0.0''),
           (''title'', JStr (''Rollback from '' @ py_str state_file)),
           (''description'', JStr ''Automated rollback''),
           (''method'',
              JList [JObj [(''type'', JStr ''action''),
                           (''name'', JStr ''recover_az''),
                           (''provider'',
                              JObj [(''type'', JStr ''python''),
                                    (''module'', JStr module),
                                    (''func'', JStr ''recover_az''),
                                    (''arguments'', JObj [(''state_path'', state_file)])])]])]"

text \<open>
  The inner \<^verbatim>\<open>try \<dots> finally\<close>: run the CLI on the temporary file, append the outcome lines,
  and unlink the file whatever happened. The result is the lines appended and the
  exception that leaves the block, if any; an exception of \<^verbatim>\<open>os.unlink\<close> replaces one
  that was already on its way.
\<close>

definition run_and_unlink ::
  "env \<Rightarrow> json \<Rightarrow> json \<Rightarrow> string \<Rightarrow> (string list \<times> string option) \<times> env" where
  "run_and_unlink e d state_file temp_file =
     (let c = [JStr ''chaos'', JStr ''run'', JStr temp_file];
          (outcome, e1) = subprocess_run e c d 600;
          (lines, raised) =
            (case outcome of
               Completed rc out err \<Rightarrow>
                 ([''Rollback from '' @ py_str state_file @ '': ''
                     @ (if rc = 0 then ''SUCCESS'' else ''FAILED'')]
                  @ (if out \<noteq> [] then [''Output: '' @ out] else [])
                  @ (if err \<noteq> [] then [''Errors: '' @ err] else []), None)
             | TimeoutExpired \<Rightarrow> ([], Some (timeout_message c 600))
             | Raised msg \<Rightarrow> ([], Some msg))
      in case unlink e1 temp_file of
           (Inl err, e2) \<Rightarrow> ((lines, Some (exc_str err)), e2)
         | (Inr _, e2) \<Rightarrow> ((lines, raised), e2))"

text \<open>
  One round of the loop: the lines it appends to \<^verbatim>\<open>results\<close>. \<^verbatim>\<open>os.path.exists\<close> stands
  before the outer \<^verbatim>\<open>try\<close>, so its exception leaves the function (\<open>Inl\<close>); every
  exception after it is caught and reported as a line. The temporary file is created and
  written before the inner \<^verbatim>\<open>try \<dots> finally\<close> is entered, so an exception of that step is
  reported without \<^verbatim>\<open>os.unlink\<close> being run.
\<close>

definition rollback_one :: "env \<Rightarrow> json \<Rightarrow> json \<Rightarrow> (error + string list) \<times> env" where
  "rollback_one e d state_file =
     (case path_exists e state_file of
        Inl err \<Rightarrow> (Inl err, e)
      | Inr found \<Rightarrow>
          if \<not> found then
            (Inr [''Warning: State file not found: '' @ py_str state_file], e)
          else
            (case rollback_module state_file of
               Inl err \<Rightarrow>
                 (Inr [''Error rolling back '' @ py_str state_file @ '': '' @ exc_str err], e)
             | Inr None \<Rightarrow>
                 (Inr [''Warning: Unknown state file type: '' @ py_str state_file], e)
             | Inr (Some module) \<Rightarrow>
                 (case write_temp e (dumps e (rollback_experiment state_file module)) of
                    (Inl err, e1) \<Rightarrow>
                      (Inr [''Error rolling back '' @ py_str state_file @ '': ''
                              @ exc_str err], e1)
                  | (Inr temp_file, e1) \<Rightarrow>
                      (case run_and_unlink e1 d state_file temp_file of
                         ((lines, None), e2) \<Rightarrow> (Inr lines, e2)
                       | ((lines, Some msg), e2) \<Rightarrow>
                           (Inr (lines @ [''Error rolling back '' @ py_str state_file @ '': ''
                                            @ msg]), e2)))))"

fun rollback_loop ::
  "env \<Rightarrow> json \<Rightarrow> json list \<Rightarrow> string list \<Rightarrow> (error + string list) \<times> env" where
  "rollback_loop e d [] results = (Inr results, e)"
| "rollback_loop e d (state_file # rest) results =
     (case rollback_one e d state_file of
        (Inl err, e') \<Rightarrow> (Inl err, e')
      | (Inr lines, e') \<Rightarrow> rollback_loop e' d rest (results @ lines))"

definition rollback_from_state :: "env \<Rightarrow> pydict \<Rightarrow> (error + json list) \<times> env" where
  "rollback_from_state e args =
     (case subscript args ''state_files'' of
        Inl err \<Rightarrow> (Inl err, e)
      | Inr state_files \<Rightarrow>
          (let d = dict_get args ''working_directory'' (JStr (getcwd e)) in
           case py_iter state_files of
             Inl err \<Rightarrow> (Inl err, e)
           | Inr paths \<Rightarrow>
               (case rollback_loop e d paths [] of
                  (Inl err, e') \<Rightarrow> (Inl err, e')
                | (Inr results, e') \<Rightarrow> (Inr (text_result (join nl results)), e'))))"

section \<open>Action catalog and dispatch\<close>

text \<open>The catalog of \<^verbatim>\<open>list_tools\<close>: each tool's name with the \<^verbatim>\<open>required\<close> list of its
  input schema, in the order of the source.\<close>

definition list_tools :: "(string \<times> string list) list" where
  "list_tools =
     [(''chaos_generate_az_failure_experiment'', [''title'', ''az'']),
      (''chaos_isolate_az_network'', [''title'', ''az'', ''vpc_id'']),
      (''chaos_simulate_az_partition'', [''title'', ''az'']),
      (''chaos_generate_asg_az_failure_experiment'', [''title'', ''az'']),
      (''chaos_generate_ec2_actions_experiment'', [''title'', ''action_type'']),
      (''chaos_run_experiment'', [''experiment_file'']),
      (''chaos_validate_experiment'', [''experiment_file'']),
      (''chaos_rollback_from_state'', [''state_files'']),
      (''chaos_stop_instances'', [''title'']),
      (''chaos_terminate_instances'', [''title'']),
      (''chaos_reboot_instances'', [''title'']),
      (''chaos_detach_volumes'', [''title'']),
      (''chaos_suspend_asg_processes'', [''title'', ''asg_names'']),
      (''chaos_terminate_random_instances'', [''title'', ''asg_names'']),
      (''chaos_ssm_send_command'', [''title'', ''instance_ids'', ''commands'']),
      (''chaos_ssm_stress_cpu'', [''title'', ''instance_ids'']),
      (''chaos_ssm_fill_disk'', [''title'', ''instance_ids'']),
      (''chaos_ssm_kill_process'', [''title'', ''instance_ids'', ''process_name'']),
      (''chaos_modify_security_groups'', [''title'', ''group_ids'', ''action'']),
      (''chaos_simulate_network_latency'', [''title'', ''instance_ids'']),
      (''chaos_reboot_db_instance'', [''title'', ''db_instance_identifier'']),
      (''chaos_failover_db_cluster'', [''title'', ''db_cluster_identifier'']),
      (''chaos_deregister_targets'', [''title'', ''target_group_arn''])]"

definition tool_names :: "string list" where
  "tool_names = map fst list_tools"

definition required_fields :: "string \<Rightarrow> string list" where
  "required_fields name = (case map_of list_tools name of None \<Rightarrow> [] | Some r \<Rightarrow> r)"

text \<open>The tools that generate an experiment file: all but run, validate and rollback.\<close>

definition generation_tools :: "string list" where
  "generation_tools =
     filter (\<lambda>n. n \<notin> set [''chaos_run_experiment'', ''chaos_validate_experiment'',
                          ''chaos_rollback_from_state'']) tool_names"

definition call_tool :: "env \<Rightarrow> string \<Rightarrow> pydict \<Rightarrow> (error + json list) \<times> env" where
  "call_tool e name arguments =
     (if name = ''chaos_generate_az_failure_experiment'' then
        generate_az_failure_experiment e arguments
      else if name = ''chaos_generate_asg_az_failure_experiment'' then
        generate_asg_az_failure_experiment e arguments
      else if name = ''chaos_isolate_az_network'' then
        generate_generic_experiment e arguments ''azchaosaws.ec2.actions'' ''isolate_az_network''
      else if name = ''chaos_simulate_az_partition'' then
        generate_generic_experiment e arguments ''azchaosaws.ec2.actions''
          ''simulate_az_partition''
      else if name = ''chaos_stop_instances'' then
        generate_generic_experiment e arguments ''chaosaws.ec2.actions'' ''stop_instances''
      else if name = ''chaos_terminate_instances'' then
        generate_generic_experiment e arguments ''chaosaws.ec2.actions'' ''terminate_instances''
      else if name = ''chaos_reboot_instances'' then
        generate_generic_experiment e arguments ''chaosaws.ec2.actions'' ''reboot_instances''
      else if name = ''chaos_detach_volumes'' then
        generate_generic_experiment e arguments ''chaosaws.ec2.actions'' ''detach_volumes''
      else if name = ''chaos_suspend_asg_processes'' then
        generate_generic_experiment e arguments ''chaosaws.asg.actions'' ''suspend_processes''
      else if name = ''chaos_terminate_random_instances'' then
        generate_generic_experiment e arguments ''chaosaws.asg.actions''
          ''terminate_random_instances''
      else if name = ''chaos_ssm_send_command'' then
        generate_generic_experiment e arguments ''chaosaws.ssm.actions'' ''send_command''
      else if name = ''chaos_ssm_stress_cpu'' then
        generate_ssm_stress_experiment e arguments ''cpu''
      else if name = ''chaos_ssm_fill_disk'' then
        generate_ssm_stress_experiment e arguments ''disk''
      else if name = ''chaos_ssm_kill_process'' then
        generate_generic_experiment e arguments ''chaosaws.ssm.actions'' ''kill_process''
      else if name = ''chaos_modify_security_groups'' then
        generate_generic_experiment e arguments ''chaosaws.ec2.actions''
          ''modify_security_groups''
      else if name = ''chaos_simulate_network_latency'' then
        generate_generic_experiment e arguments ''chaosaws.ec2.actions''
          ''simulate_network_latency''
      else if name = ''chaos_reboot_db_instance'' then
        generate_generic_experiment e arguments ''chaosaws.rds.actions'' ''reboot_db_instance''
      else if name = ''chaos_failover_db_cluster'' then
        generate_generic_experiment e arguments ''chaosaws.rds.actions'' ''failover_db_cluster''
      else if name = ''chaos_deregister_targets'' then
        generate_generic_experiment e arguments ''chaosaws.elbv2.actions'' ''deregister_targets''
      else if name = ''chaos_generate_ec2_actions_experiment'' then
        generate_ec2_actions_experiment e arguments
      else if name = ''chaos_run_experiment'' then run_experiment e arguments
      else if name = ''chaos_validate_experiment'' then validate_experiment e arguments
      else if name = ''chaos_rollback_from_state'' then rollback_from_state e arguments
      else (Inl (ValueError (''Unknown tool: '' @ name)), e))"


text \<open>The keys each generation tool's generator reads with \<^verbatim>\<open>args[...]\<close>, which raises
  KeyError when the key is absent; every other key is read with \<^verbatim>\<open>args.get\<close> or not at
  all.\<close>

definition subscripted_fields :: "string \<Rightarrow> string list" where
  "subscripted_fields name =
     (if name = ''chaos_generate_az_failure_experiment''
         \<or> name = ''chaos_generate_asg_az_failure_experiment'' then [''title'', ''az'']
      else if name = ''chaos_generate_ec2_actions_experiment'' then [''title'', ''action_type'']
      else if name = ''chaos_ssm_stress_cpu'' \<or> name = ''chaos_ssm_fill_disk''
        then [''title'', ''instance_ids'']
      else [''title''])"

section \<open>Sample environments\<close>

text \<open>Concrete environments on which the model is run: an empty file system in which
  every path can be written, temporary files are written without fault and the CLI exits
  with code 0, and variants of it: with a state file, with a state file and a disk too
  full to write a temporary file, with three state files, with a CLI that times out.
  Python's \<^verbatim>\<open>repr\<close> stands in for the serialiser.\<close>

definition sample_env :: env where
  "sample_env =
     \<lparr>files = Map.empty, writable = (\<lambda>p. True), getcwd = ''/work'', next_tmp = 0,
      temp_write = (\<lambda>t. Written), calls = [], proc = (\<lambda>c. Completed 0 [] []),
      dumps = py_repr\<rparr>"

definition sample_env_state :: env where
  "sample_env_state = sample_env\<lparr>files := [''./fail_az.ec2.json'' \<mapsto> ''{}'']\<rparr>"

definition sample_env_state_full :: env where
  "sample_env_state_full =
     sample_env_state\<lparr>temp_write := (\<lambda>t. WriteFailed ''[Errno 28] No space left on device'' [])\<rparr>"

definition sample_env_routes :: env where
  "sample_env_routes =
     sample_env\<lparr>files := [''./s.asg.ec2.json'' \<mapsto> ''{}'', ''./s.asg.json'' \<mapsto> ''{}'',
                          ''./s.json'' \<mapsto> ''{}'']\<rparr>"

definition sample_env_timeout :: env where
  "sample_env_timeout =
     sample_env\<lparr>files := [''./exp.json'' \<mapsto> ''{}''], proc := (\<lambda>c. TimeoutExpired)\<rparr>"

section \<open>Properties of the rollback loop\<close>

lemma rollback_module_str:
  "rollback_module (JStr p) =
     Inr (if sublist ''ec2'' p then Some ''azchaosaws.ec2.actions''
          else if sublist ''asg'' p then Some ''azchaosaws.asg.actions'' else None)"
  by (simp add: rollback_module_def py_contains_def bind_def)

lemma rollback_one_missing:
  "files e p = None \<Longrightarrow>
   rollback_one e d (JStr p) = (Inr [''Warning: State file not found: '' @ p], e)"
  by (simp add: rollback_one_def path_exists_def py_str_def)

lemma rollback_one_unknown:
  "files e p \<noteq> None \<Longrightarrow> \<not> sublist ''ec2'' p \<Longrightarrow> \<not> sublist ''asg'' p \<Longrightarrow>
   rollback_one e d (JStr p) = (Inr [''Warning: Unknown state file type: '' @ p], e)"
  by (simp add: rollback_one_def path_exists_def py_str_def rollback_module_str)

lemma rollback_one_tmp_taken:
  "files e p \<noteq> None \<Longrightarrow> rollback_module (JStr p) = Inr (Some m) \<Longrightarrow>
   files e (tmp_name (next_tmp e)) \<noteq> None \<Longrightarrow>
   rollback_one e d (JStr p) =
     (Inr [''Error rolling back '' @ p @ '': No usable temporary file name found''], e)"
  by (simp add: rollback_one_def path_exists_def py_str_def write_temp_def Let_def)

text \<open>The round in which the temporary file is created and its write raises: the error
  line is appended, no subprocess runs, and the file stays.\<close>

lemma rollback_one_write_failed:
  assumes "files e p \<noteq> None" and "rollback_module (JStr p) = Inr (Some m)"
      and "files e (tmp_name (next_tmp e)) = None"
      and "temp_write e (tmp_name (next_tmp e)) = WriteFailed msg part"
  shows "rollback_one e d (JStr p) =
           (Inr [''Error rolling back '' @ p @ '': '' @ msg],
            e\<lparr>files := (files e)(tmp_name (next_tmp e) \<mapsto> part),
              next_tmp := Suc (next_tmp e)\<rparr>)"
  using assms
  by (simp add: rollback_one_def path_exists_def py_str_def write_temp_def Let_def)

lemma run_and_unlink_present:
  assumes "files e1 t \<noteq> None"
  shows "\<exists>lines raised e2 c.
           run_and_unlink e1 d sf t = ((lines, raised), e2) \<and>
           files e2 = (files e1)(t := None) \<and> temp_write e2 = temp_write e1 \<and>
           calls e2 = calls e1 @ [c] \<and>
           c = \<lparr>cmd = [JStr ''chaos'', JStr ''run'', JStr t], cwd = d, timeout = 600, seen = files e1\<rparr> \<and>
           (case proc e1 c of
              Completed rc out err \<Rightarrow>
                raised = None \<and>
                lines = [''Rollback from '' @ py_str sf @ '': '' @ (if rc = 0 then ''SUCCESS'' else ''FAILED'')]
                        @ (if out \<noteq> [] then [''Output: '' @ out] else [])
                        @ (if err \<noteq> [] then [''Errors: '' @ err] else [])
            | TimeoutExpired \<Rightarrow> lines = [] \<and> raised = Some (timeout_message (cmd c) 600)
            | Raised msg \<Rightarrow> lines = [] \<and> raised = Some msg)"
  using assms
  by (auto simp: run_and_unlink_def subprocess_run_def unlink_def Let_def
           split: proc_outcome.splits prod.splits)

lemma rollback_one_attempt:
  assumes ex: "files e p \<noteq> None"
      and m: "rollback_module (JStr p) = Inr (Some m)"
      and free: "files e (tmp_name (next_tmp e)) = None"
      and w: "temp_write e (tmp_name (next_tmp e)) = Written"
  shows "\<exists>lines e' c.
           rollback_one e d (JStr p) = (Inr lines, e') \<and>
           files e' = files e \<and> temp_write e' = temp_write e \<and>
           calls e' = calls e @ [c] \<and>
           cmd c = [JStr ''chaos'', JStr ''run'', JStr (tmp_name (next_tmp e))] \<and>
           cwd c = d \<and> timeout c = 600 \<and>
           seen c (tmp_name (next_tmp e)) = Some (dumps e (rollback_experiment (JStr p) m)) \<and>
           (case proc e c of
              Completed rc out err \<Rightarrow>
                lines = [''Rollback from '' @ p @ '': '' @ (if rc = 0 then ''SUCCESS'' else ''FAILED'')]
                        @ (if out \<noteq> [] then [''Output: '' @ out] else [])
                        @ (if err \<noteq> [] then [''Errors: '' @ err] else [])
            | TimeoutExpired \<Rightarrow>
                lines = [''Error rolling back '' @ p @ '': '' @ timeout_message (cmd c) 600]
            | Raised msg \<Rightarrow> lines = [''Error rolling back '' @ p @ '': '' @ msg])"
proof -
  let ?t = "tmp_name (next_tmp e)"
  let ?content = "dumps e (rollback_experiment (JStr p) m)"
  let ?e1 = "e\<lparr>files := (files e)(?t \<mapsto> ?content), next_tmp := Suc (next_tmp e)\<rparr>"
  have wt: "write_temp e ?content = (Inr ?t, ?e1)"
    using free w by (simp add: write_temp_def Let_def)
  have "files ?e1 ?t \<noteq> None" by simp
  from run_and_unlink_present [OF this, of d "JStr p"]
  obtain lines raised e2 c where
    ru: "run_and_unlink ?e1 d (JStr p) ?t = ((lines, raised), e2)" and
    f2: "files e2 = (files ?e1)(?t := None)" and
    t2: "temp_write e2 = temp_write ?e1" and
    c2: "calls e2 = calls ?e1 @ [c]" and
    c: "c = \<lparr>cmd = [JStr ''chaos'', JStr ''run'', JStr ?t], cwd = d, timeout = 600, seen = files ?e1\<rparr>" and
    out: "(case proc ?e1 c of
              Completed rc out err \<Rightarrow>
                raised = None \<and>
                lines = [''Rollback from '' @ py_str (JStr p) @ '': '' @ (if rc = 0 then ''SUCCESS'' else ''FAILED'')]
                        @ (if out \<noteq> [] then [''Output: '' @ out] else [])
                        @ (if err \<noteq> [] then [''Errors: '' @ err] else [])
            | TimeoutExpired \<Rightarrow> lines = [] \<and> raised = Some (timeout_message (cmd c) 600)
            | Raised msg \<Rightarrow> lines = [] \<and> raised = Some msg)"
    by (elim exE conjE) (rule that)
  have files: "files e2 = files e"
    using f2 free by (simp add: fun_upd_idem)
  have tw: "temp_write e2 = temp_write e" using t2 by simp
  have one: "rollback_one e d (JStr p) =
               (case raised of None \<Rightarrow> (Inr lines, e2)
                | Some msg \<Rightarrow> (Inr (lines @ [''Error rolling back '' @ p @ '': '' @ msg]), e2))"
    using ex m wt ru
    by (simp add: rollback_one_def path_exists_def py_str_def split: option.splits)
  show ?thesis
    using one files tw c2 c out
    by (cases "proc e c") (auto simp: py_str_def split: option.splits)
qed

text \<open>The name of a temporary file is made of \<^verbatim>\<open>/tmp/tmp\<close>, digits and \<^verbatim>\<open>.json\<close>, so it
  contains neither \<^verbatim>\<open>ec2\<close> nor \<^verbatim>\<open>asg\<close>.\<close>

lemma str_nat_digits: "set (str_nat n) \<subseteq> set ''0123456789''"
proof (induction n rule: str_nat.induct)
  case (1 n)
  show ?case
  proof (cases "n < 10")
    case True
    define x where "x = ''0123456789'' ! n"
    have "n < length ''0123456789''" using True by simp
    then have xin: "x \<in> set ''0123456789''" unfolding x_def by (rule nth_mem)
    have "str_nat n = [x]"
      unfolding x_def using True by (subst str_nat.simps) (simp only: if_True)
    with xin show ?thesis by simp
  next
    case False
    define y where "y = ''0123456789'' ! (n mod 10)"
    have "n mod 10 < length ''0123456789''" by simp
    then have yin: "y \<in> set ''0123456789''" unfolding y_def by (rule nth_mem)
    have "str_nat n = str_nat (n div 10) @ [y]"
      unfolding y_def using False by (subst str_nat.simps) (simp only: if_False)
    with yin 1 [OF False] show ?thesis by simp
  qed
qed

lemma not_in_str_nat:
  assumes "c \<notin> set ''0123456789''"
  shows "c \<notin> set (str_nat n)"
proof
  assume "c \<in> set (str_nat n)"
  from subsetD [OF str_nat_digits this] assms show False by (rule notE [rotated])
qed

lemma tmp_name_not_routed:
  "\<not> sublist ''ec2'' (tmp_name n)" "\<not> sublist ''asg'' (tmp_name n)"
proof -
  have "CHR ''e'' \<notin> set ''0123456789''" by simp
  then have "CHR ''e'' \<notin> set (str_nat n)" by (rule not_in_str_nat)
  then have e: "CHR ''e'' \<notin> set (tmp_name n)" by (simp add: tmp_name_def)
  have "CHR ''a'' \<notin> set ''0123456789''" by simp
  then have "CHR ''a'' \<notin> set (str_nat n)" by (rule not_in_str_nat)
  then have a: "CHR ''a'' \<notin> set (tmp_name n)" by (simp add: tmp_name_def)
  have e2: "CHR ''e'' \<in> set ''ec2''" and a2: "CHR ''a'' \<in> set ''asg''" by simp_all
  show "\<not> sublist ''ec2'' (tmp_name n)"
  proof
    assume "sublist ''ec2'' (tmp_name n)"
    from subsetD [OF set_mono_sublist [OF this] e2] e show False by (rule notE [rotated])
  qed
  show "\<not> sublist ''asg'' (tmp_name n)"
  proof
    assume "sublist ''asg'' (tmp_name n)"
    from subsetD [OF set_mono_sublist [OF this] a2] a show False by (rule notE [rotated])
  qed
qed

text \<open>
  What one round does, for every path and environment: it returns its lines, makes at
  most one subprocess call, and changes the file system in one way only, if at all: the
  temporary file of the round is left behind when its write raised.
\<close>

lemma rollback_one_str:
  "\<exists>lines e' cs.
     rollback_one e d (JStr p) = (Inr lines, e') \<and> temp_write e' = temp_write e \<and>
     calls e' = calls e @ cs \<and> length cs \<le> 1 \<and>
     (files e p = None \<longrightarrow> cs = []) \<and>
     (\<not> sublist ''ec2'' p \<and> \<not> sublist ''asg'' p \<longrightarrow> cs = []) \<and>
     (files e p = None \<longrightarrow> lines = [''Warning: State file not found: '' @ p]) \<and>
     (files e p \<noteq> None \<longrightarrow> sublist ''ec2'' p \<or> sublist ''asg'' p \<longrightarrow>
        (\<exists>l\<in>set lines. prefix (''Rollback from '' @ p @ '': '') l
                       \<or> prefix (''Error rolling back '' @ p @ '': '') l)) \<and>
     (\<forall>q. files e' q = files e q
          \<or> (files e q = None \<and> files e' q \<noteq> None \<and> q = tmp_name (next_tmp e))) \<and>
     (temp_write e (tmp_name (next_tmp e)) = Written \<longrightarrow> files e' = files e)"
proof (cases "files e p = None")
  case True
  then show ?thesis using rollback_one_missing [OF True, of d] by simp
next
  case ex: False
  show ?thesis
  proof (cases "sublist ''ec2'' p \<or> sublist ''asg'' p")
    case False
    then show ?thesis using rollback_one_unknown [of e p d] ex by simp
  next
    case True
    then have "rollback_module (JStr p) =
                 Inr (Some (if sublist ''ec2'' p then ''azchaosaws.ec2.actions''
                            else ''azchaosaws.asg.actions''))"
      by (auto simp: rollback_module_str)
    then obtain m where m: "rollback_module (JStr p) = Inr (Some m)" ..
    show ?thesis
    proof (cases "files e (tmp_name (next_tmp e)) = None")
      case False
      then show ?thesis using rollback_one_tmp_taken [OF ex m, of d] ex by simp
    next
      case free: True
      show ?thesis
      proof (cases "temp_write e (tmp_name (next_tmp e))")
        case (WriteFailed msg part)
        let ?e' = "e\<lparr>files := (files e)(tmp_name (next_tmp e) \<mapsto> part),
                      next_tmp := Suc (next_tmp e)\<rparr>"
        have r: "rollback_one e d (JStr p)
                   = (Inr [''Error rolling back '' @ p @ '': '' @ msg], ?e')"
          by (rule rollback_one_write_failed [OF ex m free WriteFailed])
        have l: "\<exists>l\<in>set [''Error rolling back '' @ p @ '': '' @ msg].
                   prefix (''Rollback from '' @ p @ '': '') l
                   \<or> prefix (''Error rolling back '' @ p @ '': '') l"
          by (simp add: prefix_def)
        have f: "\<forall>q. files ?e' q = files e q
                   \<or> (files e q = None \<and> files ?e' q \<noteq> None \<and> q = tmp_name (next_tmp e))"
          using free by simp
        have c: "calls ?e' = calls e @ []" "temp_write ?e' = temp_write e" by simp_all
        show ?thesis
          using r l f c ex WriteFailed
          by (intro exI [of _ "[''Error rolling back '' @ p @ '': '' @ msg]"]
                exI [of _ ?e'] exI [of _ "[]"]) simp
      next
        case Written
        from rollback_one_attempt [OF ex m free Written, of d]
        obtain lines e' c where
          r: "rollback_one e d (JStr p) = (Inr lines, e')" "files e' = files e"
             "temp_write e' = temp_write e" "calls e' = calls e @ [c]" and
          out: "(case proc e c of
                Completed rc out err \<Rightarrow>
                  lines = [''Rollback from '' @ p @ '': '' @ (if rc = 0 then ''SUCCESS'' else ''FAILED'')]
                          @ (if out \<noteq> [] then [''Output: '' @ out] else [])
                          @ (if err \<noteq> [] then [''Errors: '' @ err] else [])
              | TimeoutExpired \<Rightarrow>
                  lines = [''Error rolling back '' @ p @ '': '' @ timeout_message (cmd c) 600]
              | Raised msg \<Rightarrow> lines = [''Error rolling back '' @ p @ '': '' @ msg])"
          by (elim exE conjE) (rule that)
        have "\<exists>l\<in>set lines. prefix (''Rollback from '' @ p @ '': '') l
                         \<or> prefix (''Error rolling back '' @ p @ '': '') l"
          using out by (cases "proc e c") (auto simp: prefix_def)
        with r ex True show ?thesis
          by (intro exI [of _ lines] exI [of _ e'] exI [of _ "[c]"]) auto
      qed
    qed
  qed
qed

text \<open>
  The loop on a list of paths, by induction: every round returns, so the loop does; a
  path that exists at the start still exists when its round comes; the only files that
  are new at the end are temporary files left behind; and such a file, whose name holds
  neither \<^verbatim>\<open>ec2\<close> nor \<^verbatim>\<open>asg\<close>, never triggers a subprocess call when it is itself given as
  a state file.
\<close>

lemma rollback_loop_strs:
  "\<exists>lines e'.
     rollback_loop e d (map JStr ps) acc = (Inr (acc @ lines), e') \<and>
     temp_write e' = temp_write e \<and>
     prefix (calls e) (calls e') \<and>
     length (calls e') \<le> length (calls e)
        + length (filter (\<lambda>p. files e p \<noteq> None \<and> (sublist ''ec2'' p \<or> sublist ''asg'' p)) ps) \<and>
     (\<forall>p\<in>set ps. files e p = None \<longrightarrow>
        (''Warning: State file not found: '' @ p) \<in> set lines
        \<or> (files e' p \<noteq> None \<and> (\<exists>n. p = tmp_name n))) \<and>
     (\<forall>p\<in>set ps. files e p \<noteq> None \<longrightarrow> sublist ''ec2'' p \<or> sublist ''asg'' p \<longrightarrow>
        (\<exists>l\<in>set lines. prefix (''Rollback from '' @ p @ '': '') l
                       \<or> prefix (''Error rolling back '' @ p @ '': '') l)) \<and>
     (\<forall>q. files e' q = files e q
          \<or> (files e q = None \<and> files e' q \<noteq> None \<and> (\<exists>n. q = tmp_name n))) \<and>
     ((\<forall>t. temp_write e t = Written) \<longrightarrow> files e' = files e)"
proof -
  define W where "W = (\<lambda>p. ''Warning: State file not found: '' @ p)"
  define L where "L = (\<lambda>p l. prefix (''Rollback from '' @ p @ '': '') l
                             \<or> prefix (''Error rolling back '' @ p @ '': '') l)"
  define R where "R = (\<lambda>p. sublist ''ec2'' p \<or> sublist ''asg'' p)"
  have Wp: "\<And>p. ''Warning: State file not found: '' @ p = W p" by (simp add: W_def)
  have Lp: "\<And>p l. (prefix (''Rollback from '' @ p @ '': '') l
                   \<or> prefix (''Error rolling back '' @ p @ '': '') l) = L p l"
    by (simp add: L_def)
  have Rp: "\<And>p. (sublist ''ec2'' p \<or> sublist ''asg'' p) = R p" by (simp add: R_def)
  have Rn: "\<And>p. (\<not> sublist ''ec2'' p \<and> \<not> sublist ''asg'' p) = (\<not> R p)" by (simp add: R_def)
  have nR: "\<And>n. \<not> R (tmp_name n)" by (simp add: R_def tmp_name_not_routed)
  have round: "\<exists>lines e' cs.
     rollback_one e d (JStr p) = (Inr lines, e') \<and> temp_write e' = temp_write e \<and>
     calls e' = calls e @ cs \<and> length cs \<le> 1 \<and>
     (files e p = None \<longrightarrow> cs = []) \<and>
     (\<not> R p \<longrightarrow> cs = []) \<and>
     (files e p = None \<longrightarrow> lines = [W p]) \<and>
     (files e p \<noteq> None \<longrightarrow> R p \<longrightarrow> (\<exists>l\<in>set lines. L p l)) \<and>
     (\<forall>q. files e' q = files e q
          \<or> (files e q = None \<and> files e' q \<noteq> None \<and> q = tmp_name (next_tmp e))) \<and>
     (temp_write e (tmp_name (next_tmp e)) = Written \<longrightarrow> files e' = files e)" for e p
    using rollback_one_str [of e d p] unfolding Wp Lp Rp Rn .
  have main: "\<exists>lines e'.
     rollback_loop e d (map JStr ps) acc = (Inr (acc @ lines), e') \<and>
     temp_write e' = temp_write e \<and>
     prefix (calls e) (calls e') \<and>
     length (calls e') \<le> length (calls e) + length (filter (\<lambda>p. files e p \<noteq> None \<and> R p) ps) \<and>
     (\<forall>p\<in>set ps. files e p = None \<longrightarrow>
        W p \<in> set lines \<or> (files e' p \<noteq> None \<and> (\<exists>n. p = tmp_name n))) \<and>
     (\<forall>p\<in>set ps. files e p \<noteq> None \<longrightarrow> R p \<longrightarrow> (\<exists>l\<in>set lines. L p l)) \<and>
     (\<forall>q. files e' q = files e q
          \<or> (files e q = None \<and> files e' q \<noteq> None \<and> (\<exists>n. q = tmp_name n))) \<and>
     ((\<forall>t. temp_write e t = Written) \<longrightarrow> files e' = files e)" for ps e acc
  proof (induction ps arbitrary: e acc)
    case Nil
    show ?case by simp
  next
    case (Cons p ps)
    from round [of e p] obtain l1 e1 cs where
      one: "rollback_one e d (JStr p) = (Inr l1, e1)" and
      tw1: "temp_write e1 = temp_write e" and
      c1: "calls e1 = calls e @ cs" "length cs \<le> 1" "files e p = None \<longrightarrow> cs = []"
          "\<not> R p \<longrightarrow> cs = []" and
      miss: "files e p = None \<longrightarrow> l1 = [W p]" and
      att: "files e p \<noteq> None \<longrightarrow> R p \<longrightarrow> (\<exists>l\<in>set l1. L p l)" and
      g1: "\<forall>q. files e1 q = files e q
              \<or> (files e q = None \<and> files e1 q \<noteq> None \<and> q = tmp_name (next_tmp e))" and
      u1: "temp_write e (tmp_name (next_tmp e)) = Written \<longrightarrow> files e1 = files e"
      by (elim exE conjE) (rule that)
    from Cons.IH [of e1 "acc @ l1"] obtain l2 e2 where
      rest: "rollback_loop e1 d (map JStr ps) (acc @ l1) = (Inr ((acc @ l1) @ l2), e2)" and
      tw2: "temp_write e2 = temp_write e1" and
      c2: "prefix (calls e1) (calls e2)"
          "length (calls e2) \<le> length (calls e1)
             + length (filter (\<lambda>p. files e1 p \<noteq> None \<and> R p) ps)" and
      miss2: "\<forall>p\<in>set ps. files e1 p = None \<longrightarrow>
                W p \<in> set l2 \<or> (files e2 p \<noteq> None \<and> (\<exists>n. p = tmp_name n))" and
      att2: "\<forall>p\<in>set ps. files e1 p \<noteq> None \<longrightarrow> R p \<longrightarrow> (\<exists>l\<in>set l2. L p l)" and
      g2: "\<forall>q. files e2 q = files e1 q
              \<or> (files e1 q = None \<and> files e2 q \<noteq> None \<and> (\<exists>n. q = tmp_name n))" and
      u2: "(\<forall>t. temp_write e1 t = Written) \<longrightarrow> files e2 = files e1"
      by (elim exE conjE) (rule that)
    have run: "rollback_loop e d (map JStr (p # ps)) acc = (Inr (acc @ (l1 @ l2)), e2)"
      using one rest by simp
    have tw: "temp_write e2 = temp_write e" using tw1 tw2 by simp
    have pre: "prefix (calls e) (calls e2)"
      using c1(1) c2(1) by (metis prefix_order.trans prefixI)
    have same: "files e1 q = files e q" if "R q" for q
      using g1 that nR by metis
    have "filter (\<lambda>q. files e1 q \<noteq> None \<and> R q) ps = filter (\<lambda>q. files e q \<noteq> None \<and> R q) ps"
      by (rule filter_cong) (auto simp: same)
    with c2(2) have len2:
      "length (calls e2) \<le> length (calls e1) + length (filter (\<lambda>q. files e q \<noteq> None \<and> R q) ps)"
      by simp
    have len: "length (calls e2) \<le> length (calls e)
                 + length (filter (\<lambda>q. files e q \<noteq> None \<and> R q) (p # ps))"
      using c1 len2 by auto
    have keep: "files e2 q \<noteq> None" if "files e1 q \<noteq> None" for q
      using g2 that by metis
    have m: "\<forall>q\<in>set (p # ps). files e q = None \<longrightarrow>
               W q \<in> set (l1 @ l2) \<or> (files e2 q \<noteq> None \<and> (\<exists>n. q = tmp_name n))"
    proof (intro ballI impI)
      fix q assume q: "q \<in> set (p # ps)" and n: "files e q = None"
      show "W q \<in> set (l1 @ l2) \<or> (files e2 q \<noteq> None \<and> (\<exists>n. q = tmp_name n))"
      proof (cases "files e1 q = None")
        case False
        with g1 n have "q = tmp_name (next_tmp e)" by metis
        with keep [OF False] show ?thesis by blast
      next
        case True
        show ?thesis
        proof (cases "q = p")
          case True
          with miss n show ?thesis by simp
        next
          case False
          with q have "q \<in> set ps" by simp
          with miss2 \<open>files e1 q = None\<close> show ?thesis by auto
        qed
      qed
    qed
    have a: "\<forall>q\<in>set (p # ps). files e q \<noteq> None \<longrightarrow> R q \<longrightarrow> (\<exists>l\<in>set (l1 @ l2). L q l)"
    proof (intro ballI impI)
      fix q assume q: "q \<in> set (p # ps)" and n: "files e q \<noteq> None" and r: "R q"
      show "\<exists>l\<in>set (l1 @ l2). L q l"
      proof (cases "q = p")
        case True
        with att n r show ?thesis by auto
      next
        case False
        with q have "q \<in> set ps" by simp
        moreover have "files e1 q \<noteq> None" using same [OF r] n by simp
        ultimately show ?thesis using att2 r by auto
      qed
    qed
    have g: "\<forall>q. files e2 q = files e q
               \<or> (files e q = None \<and> files e2 q \<noteq> None \<and> (\<exists>n. q = tmp_name n))"
      using g1 g2 by metis
    have u: "(\<forall>t. temp_write e t = Written) \<longrightarrow> files e2 = files e"
      using u1 u2 tw1 by simp
    show ?case
      by (intro exI [of _ "l1 @ l2"] exI [of _ e2] conjI) (rule run tw pre len m a g u)+
  qed
  show ?thesis
    using main [of e ps acc] unfolding W_def L_def R_def .
qed

section \<open>Verified claims\<close>

text \<open>
  C1. For every config and all lists of probes, actions and rollbacks, the document of
  \<open>generate_experiment_json\<close> has as its method the renderings of the actions in the
  order of the input list, as its rollbacks the renderings of the rollbacks in input
  order, and as its steady-state probes the renderings of the probes in input order;
  in particular the names of the method entries are the names of the actions, in order.
\<close>

theorem C1_sections_keep_input_order:
  "doc_method (generate_experiment_json config probes actions rollbacks)
     = Some (JList (map render_action actions))
   \<and> doc_rollbacks (generate_experiment_json config probes actions rollbacks)
     = Some (JList (map render_action rollbacks))
   \<and> doc_probes (generate_experiment_json config probes actions rollbacks)
     = Some (JList (map render_probe probes))
   \<and> map step_name (map render_action actions)
     = map (\<lambda>a. Some (JStr (action_name a))) actions"
  by (simp add: doc_method_def doc_rollbacks_def doc_probes_def generate_experiment_json_def
      jget_def step_name_def render_action_def)

subsection \<open>Generic generator\<close>

lemma map_of_filter_keys:
  "map_of (filter (\<lambda>kv. fst kv \<notin> S) xs) k = (if k \<in> S then None else map_of xs k)"
  by (induction xs) auto

lemma generic_document_Inr:
  assumes "generic_document args module func = Inr doc"
  shows "doc_method doc =
           Some (JList [render_action (mk_ActionConfig func module func
             (filter (\<lambda>kv. fst kv \<notin> set [''title'', ''output_file'', ''aws_region'']) args))])"
  using assms
  by (auto simp: generic_document_def bind_def Let_def doc_method_def jget_def
        generate_experiment_json_def split: sum.splits)

lemma step_arguments_render_action:
  "step_arguments (render_action (mk_ActionConfig n m f a)) = Some (JObj a)"
  by (simp add: step_arguments_def render_action_def mk_ActionConfig_def jget_def provider_def)

lemma write_and_report_Inr:
  assumes "write_and_report e target doc label = (Inr r, e')"
  shows "\<exists>p. target = JStr p \<and> writable e p \<and> e' = e\<lparr>files := (files e)(p \<mapsto> dumps e doc)\<rparr>"
  using assms
  by (auto simp: write_and_report_def write_json_def split: json.splits if_splits prod.splits sum.splits)

text \<open>
  C2. Whenever the generic generator returns its message, the document it built is the
  content of the output file, its method has exactly one step, and the arguments of
  that step are the input arguments in their order with exactly the entries for
  \<^verbatim>\<open>title\<close>, \<^verbatim>\<open>output_file\<close> and \<^verbatim>\<open>aws_region\<close> removed: every other key keeps its
  value. The witness is the instance named in the claim: arguments with title, output
  file, region, \<^verbatim>\<open>instance_ids = ["i-1", "i-2"]\<close> and \<^verbatim>\<open>force = true\<close>, module \<^verbatim>\<open>m\<close>,
  function \<^verbatim>\<open>f\<close>.
\<close>

theorem C2_generic_arguments_pass_through:
  assumes "generate_generic_experiment e args module func = (Inr r, e')"
  shows "\<exists>doc step p.
           generic_document args module func = Inr doc
         \<and> dict_get args ''output_file'' (JStr (''./'' @ func @ ''-experiment.json'')) = JStr p
         \<and> files e' p = Some (dumps e doc)
         \<and> doc_method doc = Some (JList [step])
         \<and> step_arguments step =
             Some (JObj (filter (\<lambda>kv. fst kv \<notin> {''title'', ''output_file'', ''aws_region''}) args))
         \<and> (\<forall>k. map_of (filter (\<lambda>kv. fst kv \<notin> {''title'', ''output_file'', ''aws_region''}) args) k
                = (if k \<in> {''title'', ''output_file'', ''aws_region''} then None else map_of args k))"
proof -
  from assms obtain doc where
    d: "generic_document args module func = Inr doc" and
    w: "write_and_report e (dict_get args ''output_file'' (JStr (''./'' @ func @ ''-experiment.json'')))
          doc func = (Inr r, e')"
    by (auto simp: generate_generic_experiment_def split: sum.splits)
  from write_and_report_Inr [OF w] obtain p where
    p: "dict_get args ''output_file'' (JStr (''./'' @ func @ ''-experiment.json'')) = JStr p"
       "e' = e\<lparr>files := (files e)(p \<mapsto> dumps e doc)\<rparr>"
    by blast
  have f: "files e' p = Some (dumps e doc)" using p(2) by simp
  let ?kept = "filter (\<lambda>kv. fst kv \<notin> {''title'', ''output_file'', ''aws_region''}) args"
  have m: "doc_method doc = Some (JList [render_action (mk_ActionConfig func module func ?kept)])"
    using generic_document_Inr [OF d] by simp
  have a: "step_arguments (render_action (mk_ActionConfig func module func ?kept)) = Some (JObj ?kept)"
    by (rule step_arguments_render_action)
  have k: "\<forall>k. map_of ?kept k
             = (if k \<in> {''title'', ''output_file'', ''aws_region''} then None else map_of args k)"
    by (rule allI) (rule map_of_filter_keys)
  from d p(1) f m a k show ?thesis by blast
qed

text \<open>Witness for C2: the instance named in the claim.\<close>

theorem C2_witness:
  "\<exists>doc step.
      generic_document
        [(''title'', JStr ''t''), (''output_file'', JStr ''out.json''), (''aws_region'', JStr ''eu-west-1''),
         (''instance_ids'', JList [JStr ''i-1'', JStr ''i-2'']), (''force'', JBool True)] ''m'' ''f'' = Inr doc
    \<and> files (snd (generate_generic_experiment sample_env
        [(''title'', JStr ''t''), (''output_file'', JStr ''out.json''), (''aws_region'', JStr ''eu-west-1''),
         (''instance_ids'', JList [JStr ''i-1'', JStr ''i-2'']), (''force'', JBool True)] ''m'' ''f''))
        ''out.json'' = Some (dumps sample_env doc)
    \<and> doc_method doc = Some (JList [step])
    \<and> step_arguments step =
        Some (JObj [(''instance_ids'', JList [JStr ''i-1'', JStr ''i-2'']), (''force'', JBool True)])"
proof -
  let ?args = "[(''title'', JStr ''t''), (''output_file'', JStr ''out.json''), (''aws_region'', JStr ''eu-west-1''),
         (''instance_ids'', JList [JStr ''i-1'', JStr ''i-2'']), (''force'', JBool True)]"
  obtain r e' where h: "generate_generic_experiment sample_env ?args ''m'' ''f'' = (Inr r, e')"
    by (simp add: generate_generic_experiment_def generic_document_def bind_def subscript_def
        mk_ExperimentConfig_def validate_str_def dict_get_def write_and_report_def write_json_def
        sample_env_def)
  from C2_generic_arguments_pass_through [OF h] h
  show ?thesis by (auto simp: dict_get_def)
qed

subsection \<open>AZ-failure generators\<close>

lemma health_check_probes_rendered:
  "map render_probe (health_check_probes args) =
     (case map_of args ''health_check_url'' of
        None \<Rightarrow> []
      | Some u \<Rightarrow>
          if truthy u then
            [JObj [(''type'', JStr ''probe''), (''name'', JStr ''health_check''),
                   (''provider'',
                      JObj [(''type'', JStr ''python''), (''module'', JStr ''chaoslib.provider.http''),
                            (''func'', JStr ''get''),
                            (''arguments'', JObj [(''url'', u), (''expected_status'', JInt 200)])]),
                   (''tolerance'', JBool True)]]
          else [])"
  by (simp add: health_check_probes_def dict_get_def render_probe_def mk_ProbeConfig_def
      provider_def split: option.splits)

lemma az_failure_document_probes:
  assumes "az_failure_document args = Inr doc \<or> asg_az_failure_document args = Inr doc"
  shows "doc_probes doc = Some (JList (map render_probe (health_check_probes args)))"
  using assms
  by (auto simp: az_failure_document_def asg_az_failure_document_def bind_def Let_def
        doc_probes_def jget_def generate_experiment_json_def split: sum.splits)

lemma generate_az_failure_experiment_Inr:
  assumes "generate_az_failure_experiment e args = (Inr r, e')"
  shows "\<exists>doc p. az_failure_document args = Inr doc \<and> files e' p = Some (dumps e doc)"
proof -
  from assms obtain doc where
    d: "az_failure_document args = Inr doc" and
    w: "write_and_report e (dict_get args ''output_file'' (JStr ''./az-failure-experiment.json''))
          doc ''AZ failure'' = (Inr r, e')"
    by (auto simp: generate_az_failure_experiment_def split: sum.splits)
  from write_and_report_Inr [OF w] obtain p where
    "e' = e\<lparr>files := (files e)(p \<mapsto> dumps e doc)\<rparr>" by blast
  then have "files e' p = Some (dumps e doc)" by simp
  with d show ?thesis by blast
qed

lemma generate_asg_az_failure_experiment_Inr:
  assumes "generate_asg_az_failure_experiment e args = (Inr r, e')"
  shows "\<exists>doc p. asg_az_failure_document args = Inr doc \<and> files e' p = Some (dumps e doc)"
proof -
  from assms obtain doc where
    d: "asg_az_failure_document args = Inr doc" and
    w: "write_and_report e (dict_get args ''output_file'' (JStr ''./asg-az-failure-experiment.json''))
          doc ''ASG AZ failure'' = (Inr r, e')"
    by (auto simp: generate_asg_az_failure_experiment_def split: sum.splits)
  from write_and_report_Inr [OF w] obtain p where
    "e' = e\<lparr>files := (files e)(p \<mapsto> dumps e doc)\<rparr>" by blast
  then have "files e' p = Some (dumps e doc)" by simp
  with d show ?thesis by blast
qed

text \<open>
  C3 (amended). Whenever the AZ-failure or the ASG-AZ-failure generator returns its
  message, the document it wrote has an empty steady-state probe list if
  \<^verbatim>\<open>health_check_url\<close> is absent or is a value that counts as false (null, the empty
  string, 0, false, an empty list or dict); if it is a value \<open>u\<close> that counts as true,
  the probe list is exactly one probe of type \<^verbatim>\<open>probe\<close>, name \<^verbatim>\<open>health_check\<close>, provider
  module \<^verbatim>\<open>chaoslib.provider.http\<close>, function \<^verbatim>\<open>get\<close>, arguments
  \<^verbatim>\<open>{url: u, expected_status: 200}\<close>, tolerance true.
\<close>

theorem C3_health_check_probe_iff_truthy_url:
  assumes "generate_az_failure_experiment e args = (Inr r, e')
           \<or> generate_asg_az_failure_experiment e args = (Inr r, e')"
  shows "\<exists>doc p.
           (az_failure_document args = Inr doc \<or> asg_az_failure_document args = Inr doc)
         \<and> files e' p = Some (dumps e doc)
         \<and> (map_of args ''health_check_url'' = None \<longrightarrow> doc_probes doc = Some (JList []))
         \<and> (\<forall>u. map_of args ''health_check_url'' = Some u \<and> \<not> truthy u
                \<longrightarrow> doc_probes doc = Some (JList []))
         \<and> (\<forall>u. map_of args ''health_check_url'' = Some u \<and> truthy u
                \<longrightarrow> doc_probes doc = Some (JList
                      [JObj [(''type'', JStr ''probe''), (''name'', JStr ''health_check''),
                             (''provider'',
                                JObj [(''type'', JStr ''python''),
                                      (''module'', JStr ''chaoslib.provider.http''),
                                      (''func'', JStr ''get''),
                                      (''arguments'',
                                         JObj [(''url'', u), (''expected_status'', JInt 200)])]),
                             (''tolerance'', JBool True)]]))"
proof -
  from assms generate_az_failure_experiment_Inr generate_asg_az_failure_experiment_Inr
  obtain doc p where
    d: "az_failure_document args = Inr doc \<or> asg_az_failure_document args = Inr doc" and
    f: "files e' p = Some (dumps e doc)"
    by blast
  have pr: "doc_probes doc = Some (JList (map render_probe (health_check_probes args)))"
    using az_failure_document_probes [OF d] .
  have 1: "map_of args ''health_check_url'' = None \<longrightarrow> doc_probes doc = Some (JList [])"
    using pr by (simp add: health_check_probes_rendered)
  have 2: "\<forall>u. map_of args ''health_check_url'' = Some u \<and> \<not> truthy u
                \<longrightarrow> doc_probes doc = Some (JList [])"
    using pr by (simp add: health_check_probes_rendered)
  have 3: "\<forall>u. map_of args ''health_check_url'' = Some u \<and> truthy u
                \<longrightarrow> doc_probes doc = Some (JList
                      [JObj [(''type'', JStr ''probe''), (''name'', JStr ''health_check''),
                             (''provider'',
                                JObj [(''type'', JStr ''python''),
                                      (''module'', JStr ''chaoslib.provider.http''),
                                      (''func'', JStr ''get''),
                                      (''arguments'',
                                         JObj [(''url'', u), (''expected_status'', JInt 200)])]),
                             (''tolerance'', JBool True)]])"
    using pr by (simp add: health_check_probes_rendered)
  show ?thesis
    by (intro exI [of _ doc] exI [of _ p] conjI) (rule d f 1 2 3)+
qed

text \<open>Witness for C3: a call of the AZ-failure generator with a health-check URL.\<close>

theorem C3_witness:
  "\<exists>r e'.
     generate_az_failure_experiment sample_env
       [(''title'', JStr ''t''), (''az'', JStr ''us-east-1a''),
        (''health_check_url'', JStr ''http://test.com/health'')] = (Inr r, e')
   \<and> (\<exists>doc p.
        (az_failure_document
           [(''title'', JStr ''t''), (''az'', JStr ''us-east-1a''),
            (''health_check_url'', JStr ''http://test.com/health'')] = Inr doc
         \<or> asg_az_failure_document
           [(''title'', JStr ''t''), (''az'', JStr ''us-east-1a''),
            (''health_check_url'', JStr ''http://test.com/health'')] = Inr doc)
      \<and> files e' p = Some (dumps sample_env doc)
      \<and> doc_probes doc = Some (JList
           [JObj [(''type'', JStr ''probe''), (''name'', JStr ''health_check''),
                  (''provider'',
                     JObj [(''type'', JStr ''python''),
                           (''module'', JStr ''chaoslib.provider.http''),
                           (''func'', JStr ''get''),
                           (''arguments'',
                              JObj [(''url'', JStr ''http://test.com/health''),
                                    (''expected_status'', JInt 200)])]),
                  (''tolerance'', JBool True)]]))"
proof -
  let ?args = "[(''title'', JStr ''t''), (''az'', JStr ''us-east-1a''),
        (''health_check_url'', JStr ''http://test.com/health'')]"
  obtain r e' where h: "generate_az_failure_experiment sample_env ?args = (Inr r, e')"
    by (simp add: generate_az_failure_experiment_def az_failure_document_def bind_def subscript_def
        mk_ExperimentConfig_def validate_str_def dict_get_def write_and_report_def write_json_def
        sample_env_def Let_def)
  have url: "map_of ?args ''health_check_url'' = Some (JStr ''http://test.com/health'')
             \<and> truthy (JStr ''http://test.com/health'')"
    by simp
  from C3_health_check_probe_iff_truthy_url [OF disjI1 [OF h]]
  obtain doc p where
    d: "az_failure_document ?args = Inr doc \<or> asg_az_failure_document ?args = Inr doc" and
    f: "files e' p = Some (dumps sample_env doc)" and
    pr: "\<forall>u. map_of ?args ''health_check_url'' = Some u \<and> truthy u
                \<longrightarrow> doc_probes doc = Some (JList
                      [JObj [(''type'', JStr ''probe''), (''name'', JStr ''health_check''),
                             (''provider'',
                                JObj [(''type'', JStr ''python''),
                                      (''module'', JStr ''chaoslib.provider.http''),
                                      (''func'', JStr ''get''),
                                      (''arguments'',
                                         JObj [(''url'', u), (''expected_status'', JInt 200)])]),
                             (''tolerance'', JBool True)]])"
    by (elim exE conjE) (rule that)
  note probe = pr [rule_format, OF url]
  show ?thesis
    by (intro exI [of _ r] exI [of _ e'] exI [of _ doc] exI [of _ p] conjI) (rule h d f probe)+
qed

text \<open>
  The claim as first stated fails when \<^verbatim>\<open>health_check_url\<close> is supplied as the empty string:
  the generator succeeds and the probe list is empty.
\<close>

theorem C3_counterexample:
  "map_of [(''title'', JStr ''t''), (''az'', JStr ''us-east-1a''), (''health_check_url'', JStr '''')]
      ''health_check_url'' = Some (JStr '''')
   \<and> \<not> isl (fst (generate_az_failure_experiment sample_env
        [(''title'', JStr ''t''), (''az'', JStr ''us-east-1a''), (''health_check_url'', JStr '''')]))
   \<and> map_sum id doc_probes (az_failure_document
        [(''title'', JStr ''t''), (''az'', JStr ''us-east-1a''), (''health_check_url'', JStr '''')])
      = Inr (Some (JList []))"
  by (simp add: generate_az_failure_experiment_def az_failure_document_def bind_def subscript_def
        mk_ExperimentConfig_def validate_str_def dict_get_def write_and_report_def write_json_def
        sample_env_def Let_def health_check_probes_def doc_probes_def jget_def
        generate_experiment_json_def)

subsection \<open>SSM stress generator\<close>

lemma py_str_ints:
  "py_str (JInt 4) = ''4''" "py_str (JInt 600) = ''600''"
  "py_str (JInt 2048) = ''2048''" "py_str (JInt 300) = ''300''"
  by (simp_all add: py_str_def str_int_def str_nat.simps)

lemma py_str_JStr: "py_str (JStr s) = s"
  by (simp add: py_str_def)

lemma stress_commands_cpu:
  assumes "map_of args ''cpu_cores'' = Some (JInt 4)"
      and "map_of args ''duration_seconds'' = Some (JInt 600)"
  shows "stress_commands args ''cpu'' = [''stress --cpu 4 --timeout 600s'']"
  using assms by (simp add: stress_commands_def dict_get_def py_str_ints)

lemma stress_commands_disk:
  assumes "map_of args ''size_mb'' = Some (JInt 2048)"
      and "map_of args ''duration_seconds'' = Some (JInt 300)"
      and "map_of args ''path'' = Some (JStr ''/var/tmp'')"
  shows "stress_commands args ''disk'' =
           [''dd if=/dev/zero of=/var/tmp/chaos_fill bs=1M count=2048'', ''sleep 300'',
            ''rm -f /var/tmp/chaos_fill'']"
  using assms by (simp add: stress_commands_def dict_get_def py_str_ints py_str_JStr Let_def)

lemma ssm_stress_document_Inr:
  assumes "ssm_stress_document args stress_type = Inr doc"
  shows "\<exists>step. doc_method doc = Some (JList [step])
           \<and> step_commands step = Some (JList (map JStr (stress_commands args stress_type)))"
  using assms
  by (auto simp: ssm_stress_document_def bind_def Let_def doc_method_def jget_def
        generate_experiment_json_def step_commands_def step_arguments_def render_action_def
        mk_ActionConfig_def provider_def split: sum.splits)

lemma generate_ssm_stress_experiment_Inr:
  assumes "generate_ssm_stress_experiment e args stress_type = (Inr r, e')"
  shows "\<exists>doc p. ssm_stress_document args stress_type = Inr doc \<and> files e' p = Some (dumps e doc)"
proof -
  from assms obtain doc where
    d: "ssm_stress_document args stress_type = Inr doc" and
    w: "write_and_report e
          (dict_get args ''output_file'' (JStr (''./ssm-'' @ stress_type @ ''-stress-experiment.json'')))
          doc (''SSM '' @ stress_type @ '' stress'') = (Inr r, e')"
    by (auto simp: generate_ssm_stress_experiment_def split: sum.splits)
  from write_and_report_Inr [OF w] obtain p where
    "e' = e\<lparr>files := (files e)(p \<mapsto> dumps e doc)\<rparr>" by blast
  then have "files e' p = Some (dumps e doc)" by simp
  with d show ?thesis by blast
qed

lemma stress_substrings:
  "sublist ''stress --cpu 4'' ''stress --cpu 4 --timeout 600s''"
  "sublist ''--timeout 600s'' ''stress --cpu 4 --timeout 600s''"
  "prefix ''dd '' ''dd if=/dev/zero of=/var/tmp/chaos_fill bs=1M count=2048''"
  "sublist ''/var/tmp/chaos_fill'' ''dd if=/dev/zero of=/var/tmp/chaos_fill bs=1M count=2048''"
  "sublist ''count=2048'' ''dd if=/dev/zero of=/var/tmp/chaos_fill bs=1M count=2048''"
  "sublist ''/var/tmp/chaos_fill'' ''rm -f /var/tmp/chaos_fill''"
  by (simp_all add: sublist_code)

text \<open>
  C4. When the SSM stress generator returns its message for stress type \<^verbatim>\<open>cpu\<close> with
  \<^verbatim>\<open>cpu_cores = 4\<close> and \<^verbatim>\<open>duration_seconds = 600\<close>, the one step of the written document
  carries exactly one command, \<^verbatim>\<open>stress --cpu 4 --timeout 600s\<close>, which contains both
  \<^verbatim>\<open>stress --cpu 4\<close> and \<^verbatim>\<open>--timeout 600s\<close>. For stress type \<^verbatim>\<open>disk\<close> with
  \<^verbatim>\<open>size_mb = 2048\<close>, \<^verbatim>\<open>duration_seconds = 300\<close> and \<^verbatim>\<open>path = "/var/tmp"\<close> it carries exactly
  three commands: a \<^verbatim>\<open>dd\<close> command naming \<^verbatim>\<open>/var/tmp/chaos_fill\<close> and \<^verbatim>\<open>count=2048\<close>, then
  \<^verbatim>\<open>sleep 300\<close>, then \<^verbatim>\<open>rm -f /var/tmp/chaos_fill\<close>.
\<close>

theorem C4_ssm_stress_commands:
  "(generate_ssm_stress_experiment e args ''cpu'' = (Inr r, e')
      \<and> map_of args ''cpu_cores'' = Some (JInt 4)
      \<and> map_of args ''duration_seconds'' = Some (JInt 600)
    \<longrightarrow> (\<exists>doc p step c.
           ssm_stress_document args ''cpu'' = Inr doc
         \<and> files e' p = Some (dumps e doc)
         \<and> doc_method doc = Some (JList [step])
         \<and> step_commands step = Some (JList [JStr c])
         \<and> c = ''stress --cpu 4 --timeout 600s''
         \<and> sublist ''stress --cpu 4'' c \<and> sublist ''--timeout 600s'' c))
 \<and> (generate_ssm_stress_experiment e2 args2 ''disk'' = (Inr r2, e2')
      \<and> map_of args2 ''size_mb'' = Some (JInt 2048)
      \<and> map_of args2 ''duration_seconds'' = Some (JInt 300)
      \<and> map_of args2 ''path'' = Some (JStr ''/var/tmp'')
    \<longrightarrow> (\<exists>doc p step c1 c2 c3.
           ssm_stress_document args2 ''disk'' = Inr doc
         \<and> files e2' p = Some (dumps e2 doc)
         \<and> doc_method doc = Some (JList [step])
         \<and> step_commands step = Some (JList [JStr c1, JStr c2, JStr c3])
         \<and> c1 = ''dd if=/dev/zero of=/var/tmp/chaos_fill bs=1M count=2048''
         \<and> prefix ''dd '' c1 \<and> sublist ''/var/tmp/chaos_fill'' c1 \<and> sublist ''count=2048'' c1
         \<and> c2 = ''sleep 300''
         \<and> c3 = ''rm -f /var/tmp/chaos_fill'' \<and> sublist ''/var/tmp/chaos_fill'' c3))"
proof (intro conjI impI)
  assume a: "generate_ssm_stress_experiment e args ''cpu'' = (Inr r, e')
      \<and> map_of args ''cpu_cores'' = Some (JInt 4)
      \<and> map_of args ''duration_seconds'' = Some (JInt 600)"
  from a generate_ssm_stress_experiment_Inr obtain doc p where
    d: "ssm_stress_document args ''cpu'' = Inr doc" and f: "files e' p = Some (dumps e doc)"
    by blast
  from ssm_stress_document_Inr [OF d] obtain step where
    m: "doc_method doc = Some (JList [step])" and
    c: "step_commands step = Some (JList (map JStr (stress_commands args ''cpu'')))"
    by blast
  have c': "step_commands step = Some (JList [JStr ''stress --cpu 4 --timeout 600s''])"
    using c a by (simp add: stress_commands_cpu)
  show "\<exists>doc p step c.
           ssm_stress_document args ''cpu'' = Inr doc
         \<and> files e' p = Some (dumps e doc)
         \<and> doc_method doc = Some (JList [step])
         \<and> step_commands step = Some (JList [JStr c])
         \<and> c = ''stress --cpu 4 --timeout 600s''
         \<and> sublist ''stress --cpu 4'' c \<and> sublist ''--timeout 600s'' c"
    by (intro exI [of _ doc] exI [of _ p] exI [of _ step]
          exI [of _ "''stress --cpu 4 --timeout 600s''"] conjI)
       (rule d f m c' refl stress_substrings)+
next
  assume a: "generate_ssm_stress_experiment e2 args2 ''disk'' = (Inr r2, e2')
      \<and> map_of args2 ''size_mb'' = Some (JInt 2048)
      \<and> map_of args2 ''duration_seconds'' = Some (JInt 300)
      \<and> map_of args2 ''path'' = Some (JStr ''/var/tmp'')"
  from a generate_ssm_stress_experiment_Inr obtain doc p where
    d: "ssm_stress_document args2 ''disk'' = Inr doc" and f: "files e2' p = Some (dumps e2 doc)"
    by blast
  from ssm_stress_document_Inr [OF d] obtain step where
    m: "doc_method doc = Some (JList [step])" and
    c: "step_commands step = Some (JList (map JStr (stress_commands args2 ''disk'')))"
    by blast
  have c': "step_commands step =
              Some (JList [JStr ''dd if=/dev/zero of=/var/tmp/chaos_fill bs=1M count=2048'',
                           JStr ''sleep 300'', JStr ''rm -f /var/tmp/chaos_fill''])"
    using c a by (simp add: stress_commands_disk)
  show "\<exists>doc p step c1 c2 c3.
           ssm_stress_document args2 ''disk'' = Inr doc
         \<and> files e2' p = Some (dumps e2 doc)
         \<and> doc_method doc = Some (JList [step])
         \<and> step_commands step = Some (JList [JStr c1, JStr c2, JStr c3])
         \<and> c1 = ''dd if=/dev/zero of=/var/tmp/chaos_fill bs=1M count=2048''
         \<and> prefix ''dd '' c1 \<and> sublist ''/var/tmp/chaos_fill'' c1 \<and> sublist ''count=2048'' c1
         \<and> c2 = ''sleep 300''
         \<and> c3 = ''rm -f /var/tmp/chaos_fill'' \<and> sublist ''/var/tmp/chaos_fill'' c3"
    by (intro exI [of _ doc] exI [of _ p] exI [of _ step]
          exI [of _ "''dd if=/dev/zero of=/var/tmp/chaos_fill bs=1M count=2048''"]
          exI [of _ "''sleep 300''"] exI [of _ "''rm -f /var/tmp/chaos_fill''"] conjI)
       (rule d f m c' refl stress_substrings)+
qed


text \<open>Witness for C4: the two calls of the repository's tests, in the sample environment.\<close>

theorem C4_witness:
  "(\<exists>r e'.
      generate_ssm_stress_experiment sample_env
        [(''title'', JStr ''SSM CPU Stress Test''), (''instance_ids'', JList [JStr ''i-123'']),
         (''cpu_cores'', JInt 4), (''duration_seconds'', JInt 600)] ''cpu'' = (Inr r, e')
    \<and> (\<exists>doc p step c.
           ssm_stress_document
             [(''title'', JStr ''SSM CPU Stress Test''), (''instance_ids'', JList [JStr ''i-123'']),
              (''cpu_cores'', JInt 4), (''duration_seconds'', JInt 600)] ''cpu'' = Inr doc
         \<and> files e' p = Some (dumps sample_env doc)
         \<and> doc_method doc = Some (JList [step])
         \<and> step_commands step = Some (JList [JStr c])
         \<and> c = ''stress --cpu 4 --timeout 600s''
         \<and> sublist ''stress --cpu 4'' c \<and> sublist ''--timeout 600s'' c))
 \<and> (\<exists>r e'.
      generate_ssm_stress_experiment sample_env
        [(''title'', JStr ''SSM Disk Stress Test''), (''instance_ids'', JList [JStr ''i-789'']),
         (''size_mb'', JInt 2048), (''duration_seconds'', JInt 300), (''path'', JStr ''/var/tmp'')]
        ''disk'' = (Inr r, e')
    \<and> (\<exists>doc p step c1 c2 c3.
           ssm_stress_document
             [(''title'', JStr ''SSM Disk Stress Test''), (''instance_ids'', JList [JStr ''i-789'']),
              (''size_mb'', JInt 2048), (''duration_seconds'', JInt 300),
              (''path'', JStr ''/var/tmp'')] ''disk'' = Inr doc
         \<and> files e' p = Some (dumps sample_env doc)
         \<and> doc_method doc = Some (JList [step])
         \<and> step_commands step = Some (JList [JStr c1, JStr c2, JStr c3])
         \<and> c1 = ''dd if=/dev/zero of=/var/tmp/chaos_fill bs=1M count=2048''
         \<and> prefix ''dd '' c1 \<and> sublist ''/var/tmp/chaos_fill'' c1 \<and> sublist ''count=2048'' c1
         \<and> c2 = ''sleep 300''
         \<and> c3 = ''rm -f /var/tmp/chaos_fill'' \<and> sublist ''/var/tmp/chaos_fill'' c3))"
proof -
  let ?cpu = "[(''title'', JStr ''SSM CPU Stress Test''), (''instance_ids'', JList [JStr ''i-123'']),
         (''cpu_cores'', JInt 4), (''duration_seconds'', JInt 600)]"
  let ?disk = "[(''title'', JStr ''SSM Disk Stress Test''), (''instance_ids'', JList [JStr ''i-789'']),
         (''size_mb'', JInt 2048), (''duration_seconds'', JInt 300), (''path'', JStr ''/var/tmp'')]"
  obtain r e' where h1: "generate_ssm_stress_experiment sample_env ?cpu ''cpu'' = (Inr r, e')"
    by (simp add: generate_ssm_stress_experiment_def ssm_stress_document_def bind_def
        subscript_def mk_ExperimentConfig_def validate_str_def dict_get_def write_and_report_def
        write_json_def sample_env_def Let_def)
  obtain r2 e2' where
    h2: "generate_ssm_stress_experiment sample_env ?disk ''disk'' = (Inr r2, e2')"
    by (simp add: generate_ssm_stress_experiment_def ssm_stress_document_def bind_def
        subscript_def mk_ExperimentConfig_def validate_str_def dict_get_def write_and_report_def
        write_json_def sample_env_def Let_def)
  have a1: "generate_ssm_stress_experiment sample_env ?cpu ''cpu'' = (Inr r, e')
      \<and> map_of ?cpu ''cpu_cores'' = Some (JInt 4)
      \<and> map_of ?cpu ''duration_seconds'' = Some (JInt 600)"
    using h1 by simp
  have a2: "generate_ssm_stress_experiment sample_env ?disk ''disk'' = (Inr r2, e2')
      \<and> map_of ?disk ''size_mb'' = Some (JInt 2048)
      \<and> map_of ?disk ''duration_seconds'' = Some (JInt 300)
      \<and> map_of ?disk ''path'' = Some (JStr ''/var/tmp'')"
    using h2 by simp
  note C = C4_ssm_stress_commands [of sample_env ?cpu r e' sample_env ?disk r2 e2']
  note k1 = C [THEN conjunct1, THEN mp, OF a1]
  note k2 = C [THEN conjunct2, THEN mp, OF a2]
  show ?thesis
    by (intro conjI exI [of _ r] exI [of _ e'] exI [of _ r2] exI [of _ e2'])
       (rule h1 h2 k1 k2)+
qed

subsection \<open>Run, validate and dispatch\<close>

lemma run_experiment_missing:
  assumes "map_of args ''experiment_file'' = Some (JStr p)" and "files e p = None"
  shows "run_experiment e args
           = (Inr (text_result (''Error: Experiment file not found: '' @ p)), e)"
  using assms by (simp add: run_experiment_def subscript_def path_exists_def py_str_JStr)

lemma validate_experiment_missing:
  assumes "map_of args ''experiment_file'' = Some (JStr p)" and "files e p = None"
  shows "validate_experiment e args
           = (Inr (text_result (''Error: Experiment file not found: '' @ p)), e)"
  using assms by (simp add: validate_experiment_def subscript_def path_exists_def py_str_JStr)

lemma run_experiment_present:
  assumes "map_of args ''experiment_file'' = Some (JStr p)" and "files e p \<noteq> None"
  shows "\<exists>r e' c. run_experiment e args = (Inr r, e') \<and> calls e' = calls e @ [c]
           \<and> timeout c = 3600 \<and> files e' = files e
           \<and> (proc e c = TimeoutExpired
                \<longrightarrow> r = text_result ''Error: Experiment execution timed out after 1 hour'')"
  using assms
  by (auto simp: run_experiment_def subscript_def path_exists_def subprocess_run_def Let_def
        split: proc_outcome.splits)

text \<open>
  C6. For every path \<open>p\<close> given as \<^verbatim>\<open>experiment_file\<close>: if no file exists at \<open>p\<close>, both
  run and validate return the text \<^verbatim>\<open>Error: Experiment file not found: p\<close> and leave the
  environment as it was, so no subprocess is invoked; if the file exists, run returns a
  result after exactly one subprocess call, made with a timeout of 3600 seconds, and
  when that call times out the result is the text
  \<^verbatim>\<open>Error: Experiment execution timed out after 1 hour\<close>. In each of these cases the
  operation returns a value and raises nothing.
\<close>

theorem C6_run_and_validate_report_failures_as_results:
  "(map_of args ''experiment_file'' = Some (JStr p) \<and> files e p = None
      \<longrightarrow> run_experiment e args
            = (Inr (text_result (''Error: Experiment file not found: '' @ p)), e)
        \<and> validate_experiment e args
            = (Inr (text_result (''Error: Experiment file not found: '' @ p)), e))
 \<and> (map_of args ''experiment_file'' = Some (JStr p) \<and> files e p \<noteq> None
      \<longrightarrow> (\<exists>r e' c. run_experiment e args = (Inr r, e') \<and> calls e' = calls e @ [c]
             \<and> timeout c = 3600 \<and> files e' = files e
             \<and> (proc e c = TimeoutExpired
                  \<longrightarrow> r = text_result ''Error: Experiment execution timed out after 1 hour'')))"
  using run_experiment_missing [of args p e] validate_experiment_missing [of args p e]
    run_experiment_present [of args p e]
  by blast

text \<open>Witness for C6: a missing file in the sample environment, and an existing file in an
  environment whose CLI times out.\<close>

theorem C6_witness:
  "(run_experiment sample_env [(''experiment_file'', JStr ''./nonexistent.json'')]
      = (Inr (text_result ''Error: Experiment file not found: ./nonexistent.json''), sample_env)
    \<and> validate_experiment sample_env [(''experiment_file'', JStr ''./nonexistent.json'')]
      = (Inr (text_result ''Error: Experiment file not found: ./nonexistent.json''), sample_env))
 \<and> (\<exists>e' c. run_experiment sample_env_timeout [(''experiment_file'', JStr ''./exp.json'')]
        = (Inr (text_result ''Error: Experiment execution timed out after 1 hour''), e')
      \<and> calls e' = calls sample_env_timeout @ [c] \<and> timeout c = 3600)"
proof -
  have a: "map_of [(''experiment_file'', JStr ''./nonexistent.json'')] ''experiment_file''
             = Some (JStr ''./nonexistent.json'') \<and> files sample_env ''./nonexistent.json'' = None"
    by (simp add: sample_env_def)
  have b: "map_of [(''experiment_file'', JStr ''./exp.json'')] ''experiment_file''
             = Some (JStr ''./exp.json'') \<and> files sample_env_timeout ''./exp.json'' \<noteq> None"
    by (simp add: sample_env_timeout_def sample_env_def)
  have t: "\<And>c. proc sample_env_timeout c = TimeoutExpired"
    by (simp add: sample_env_timeout_def sample_env_def)
  note k1 = C6_run_and_validate_report_failures_as_results
    [of "[(''experiment_file'', JStr ''./nonexistent.json'')]" "''./nonexistent.json''" sample_env,
     THEN conjunct1, THEN mp, OF a]
  note k2 = C6_run_and_validate_report_failures_as_results
    [of "[(''experiment_file'', JStr ''./exp.json'')]" "''./exp.json''" sample_env_timeout,
     THEN conjunct2, THEN mp, OF b]
  from k2 t obtain r e' c where
    "run_experiment sample_env_timeout [(''experiment_file'', JStr ''./exp.json'')] = (Inr r, e')"
    "calls e' = calls sample_env_timeout @ [c]" "timeout c = 3600"
    "r = text_result ''Error: Experiment execution timed out after 1 hour''"
    by blast
  with k1 show ?thesis by auto
qed



subsection \<open>Missing fields\<close>

lemma generic_missing_title:
  assumes "map_of args ''title'' = None"
  shows "generate_generic_experiment e args module func = (Inl (KeyError ''title''), e)"
  using assms
  by (simp add: generate_generic_experiment_def generic_document_def subscript_def bind_def)

lemma az_missing_title:
  assumes "map_of args ''title'' = None"
  shows "generate_az_failure_experiment e args = (Inl (KeyError ''title''), e)"
    and "generate_asg_az_failure_experiment e args = (Inl (KeyError ''title''), e)"
    and "generate_ec2_actions_experiment e args = (Inl (KeyError ''title''), e)"
    and "generate_ssm_stress_experiment e args stress_type = (Inl (KeyError ''title''), e)"
  using assms
  by (simp_all add: generate_az_failure_experiment_def az_failure_document_def
        generate_asg_az_failure_experiment_def asg_az_failure_document_def
        generate_ec2_actions_experiment_def ec2_actions_document_def
        generate_ssm_stress_experiment_def ssm_stress_document_def subscript_def bind_def)

lemma az_missing_az:
  assumes "map_of args ''az'' = None"
  shows "\<exists>err. generate_az_failure_experiment e args = (Inl err, e)"
    and "\<exists>err. generate_asg_az_failure_experiment e args = (Inl err, e)"
  using assms
  by (simp_all add: generate_az_failure_experiment_def az_failure_document_def
        generate_asg_az_failure_experiment_def asg_az_failure_document_def
        subscript_def bind_def split: option.splits)

lemma ec2_missing_action_type:
  assumes "map_of args ''action_type'' = None"
  shows "\<exists>err. generate_ec2_actions_experiment e args = (Inl err, e)"
  using assms
  by (simp add: generate_ec2_actions_experiment_def ec2_actions_document_def
        subscript_def bind_def split: option.splits)

lemma ssm_missing_instance_ids:
  assumes "map_of args ''instance_ids'' = None"
  shows "\<exists>err. generate_ssm_stress_experiment e args stress_type = (Inl err, e)"
  using assms
  by (auto simp: generate_ssm_stress_experiment_def ssm_stress_document_def
        subscript_def bind_def Let_def split: option.splits sum.splits)

lemma generation_tools_eq:
  "generation_tools =
     [''chaos_generate_az_failure_experiment'', ''chaos_isolate_az_network'',
      ''chaos_simulate_az_partition'', ''chaos_generate_asg_az_failure_experiment'',
      ''chaos_generate_ec2_actions_experiment'', ''chaos_stop_instances'',
      ''chaos_terminate_instances'', ''chaos_reboot_instances'', ''chaos_detach_volumes'',
      ''chaos_suspend_asg_processes'', ''chaos_terminate_random_instances'',
      ''chaos_ssm_send_command'', ''chaos_ssm_stress_cpu'', ''chaos_ssm_fill_disk'',
      ''chaos_ssm_kill_process'', ''chaos_modify_security_groups'',
      ''chaos_simulate_network_latency'', ''chaos_reboot_db_instance'',
      ''chaos_failover_db_cluster'', ''chaos_deregister_targets'']"
  by (simp add: generation_tools_def tool_names_def list_tools_def)

lemma generation_tools_cases:
  assumes "name \<in> set generation_tools"
  shows "name = ''chaos_generate_az_failure_experiment'' \<or> name = ''chaos_isolate_az_network''
       \<or> name = ''chaos_simulate_az_partition''
       \<or> name = ''chaos_generate_asg_az_failure_experiment''
       \<or> name = ''chaos_generate_ec2_actions_experiment'' \<or> name = ''chaos_stop_instances''
       \<or> name = ''chaos_terminate_instances'' \<or> name = ''chaos_reboot_instances''
       \<or> name = ''chaos_detach_volumes'' \<or> name = ''chaos_suspend_asg_processes''
       \<or> name = ''chaos_terminate_random_instances'' \<or> name = ''chaos_ssm_send_command''
       \<or> name = ''chaos_ssm_stress_cpu'' \<or> name = ''chaos_ssm_fill_disk''
       \<or> name = ''chaos_ssm_kill_process'' \<or> name = ''chaos_modify_security_groups''
       \<or> name = ''chaos_simulate_network_latency'' \<or> name = ''chaos_reboot_db_instance''
       \<or> name = ''chaos_failover_db_cluster'' \<or> name = ''chaos_deregister_targets''"
  using assms unfolding generation_tools_eq
  by (simp only: list.set insert_iff empty_iff HOL.simp_thms)

lemma subscripted_fields_required:
  assumes "name \<in> set generation_tools" and "k \<in> set (subscripted_fields name)"
  shows "k \<in> set (required_fields name)"
  using generation_tools_cases [OF assms(1)] assms(2)
  by (elim disjE)
     (simp_all add: subscripted_fields_def required_fields_def list_tools_def)

lemma missing_title_fails:
  assumes "name \<in> set generation_tools" and "map_of args ''title'' = None"
  shows "call_tool e name args = (Inl (KeyError ''title''), e)"
  using generation_tools_cases [OF assms(1)]
  by (elim disjE)
     (simp_all add: call_tool_def generic_missing_title [OF assms(2)]
        az_missing_title [OF assms(2)])

lemma missing_subscripted_fails:
  assumes "name \<in> set generation_tools" and "k \<in> set (subscripted_fields name)"
      and "map_of args k = None"
  shows "\<exists>err. call_tool e name args = (Inl err, e)"
proof (cases "k = ''title''")
  case True
  with missing_title_fails [OF assms(1), of args e] assms(3) show ?thesis by simp
next
  case False
  have special:
    "(name = ''chaos_generate_az_failure_experiment'' \<and> k = ''az'')
     \<or> (name = ''chaos_generate_asg_az_failure_experiment'' \<and> k = ''az'')
     \<or> (name = ''chaos_generate_ec2_actions_experiment'' \<and> k = ''action_type'')
     \<or> (name = ''chaos_ssm_stress_cpu'' \<and> k = ''instance_ids'')
     \<or> (name = ''chaos_ssm_fill_disk'' \<and> k = ''instance_ids'')"
    using generation_tools_cases [OF assms(1)] assms(2) False
    by (elim disjE) (simp_all add: subscripted_fields_def)
  then show ?thesis
  proof (elim disjE conjE)
    assume "name = ''chaos_generate_az_failure_experiment''" "k = ''az''"
    with az_missing_az(1) [of args e] assms(3) show ?thesis by (simp add: call_tool_def)
  next
    assume "name = ''chaos_generate_asg_az_failure_experiment''" "k = ''az''"
    with az_missing_az(2) [of args e] assms(3) show ?thesis by (simp add: call_tool_def)
  next
    assume "name = ''chaos_generate_ec2_actions_experiment''" "k = ''action_type''"
    with ec2_missing_action_type [of args e] assms(3) show ?thesis by (simp add: call_tool_def)
  next
    assume "name = ''chaos_ssm_stress_cpu''" "k = ''instance_ids''"
    with ssm_missing_instance_ids [of args e "''cpu''"] assms(3) show ?thesis
      by (simp add: call_tool_def)
  next
    assume "name = ''chaos_ssm_fill_disk''" "k = ''instance_ids''"
    with ssm_missing_instance_ids [of args e "''disk''"] assms(3) show ?thesis
      by (simp add: call_tool_def)
  qed
qed

text \<open>
  C9 (amended). For every generation tool and every field \<open>k\<close> that the tool's generator
  reads with \<^verbatim>\<open>args[k]\<close> (\<^verbatim>\<open>title\<close> for every tool, and \<^verbatim>\<open>az\<close>, \<^verbatim>\<open>action_type\<close> or
  \<^verbatim>\<open>instance_ids\<close> for the specialised generators): \<open>k\<close> is a required field of the
  tool's schema, and a call whose arguments lack \<open>k\<close> raises an exception and leaves the
  environment unchanged, so no file is written; when the missing field is \<^verbatim>\<open>title\<close> the
  exception is \<^verbatim>\<open>KeyError('title')\<close>.
\<close>

theorem C9_missing_subscripted_field_fails_before_any_write:
  assumes "name \<in> set generation_tools" and "k \<in> set (subscripted_fields name)"
      and "map_of args k = None"
  shows "k \<in> set (required_fields name)
       \<and> (\<exists>err. call_tool e name args = (Inl err, e))
       \<and> (k = ''title'' \<longrightarrow> call_tool e name args = (Inl (KeyError ''title''), e))"
proof (intro conjI impI)
  show "k \<in> set (required_fields name)"
    by (rule subscripted_fields_required [OF assms(1,2)])
  show "\<exists>err. call_tool e name args = (Inl err, e)"
    by (rule missing_subscripted_fails [OF assms])
  assume "k = ''title''"
  with assms(3) have "map_of args ''title'' = None" by simp
  then show "call_tool e name args = (Inl (KeyError ''title''), e)"
    by (rule missing_title_fails [OF assms(1)])
qed

text \<open>Witness for C9: the AZ-failure tool called without \<^verbatim>\<open>az\<close>.\<close>

theorem C9_witness:
  "''chaos_generate_az_failure_experiment'' \<in> set generation_tools
   \<and> ''az'' \<in> set (subscripted_fields ''chaos_generate_az_failure_experiment'')
   \<and> map_of [(''title'', JStr ''t'')] ''az'' = None
   \<and> ''az'' \<in> set (required_fields ''chaos_generate_az_failure_experiment'')
   \<and> call_tool sample_env ''chaos_generate_az_failure_experiment'' [(''title'', JStr ''t'')]
       = (Inl (KeyError ''az''), sample_env)"
proof -
  have a: "''chaos_generate_az_failure_experiment'' \<in> set generation_tools"
    by (simp add: generation_tools_eq)
  have b: "''az'' \<in> set (subscripted_fields ''chaos_generate_az_failure_experiment'')"
    by (simp add: subscripted_fields_def)
  have c: "map_of [(''title'', JStr ''t'')] ''az'' = None" by simp
  have v: "fst (call_tool sample_env ''chaos_generate_az_failure_experiment''
                  [(''title'', JStr ''t'')]) = Inl (KeyError ''az'')"
    by (simp add: call_tool_def generate_az_failure_experiment_def az_failure_document_def
        subscript_def bind_def)
  note k = C9_missing_subscripted_field_fails_before_any_write [OF a b c, of sample_env]
  from k [THEN conjunct2, THEN conjunct1] v
  have r: "call_tool sample_env ''chaos_generate_az_failure_experiment'' [(''title'', JStr ''t'')]
             = (Inl (KeyError ''az''), sample_env)"
    by (elim exE) simp
  show ?thesis
    by (intro conjI) (rule a b c k [THEN conjunct1] r)+
qed

text \<open>
  The claim as first stated fails for a required field that the generator does not
  read by subscript: \<^verbatim>\<open>chaos_deregister_targets\<close> requires \<^verbatim>\<open>target_group_arn\<close>, yet a call
  with only a title succeeds and writes the experiment file.
\<close>

theorem C9_counterexample:
  "''chaos_deregister_targets'' \<in> set generation_tools
   \<and> ''target_group_arn'' \<in> set (required_fields ''chaos_deregister_targets'')
   \<and> map_of [(''title'', JStr ''t'')] ''target_group_arn'' = None
   \<and> \<not> isl (fst (call_tool sample_env ''chaos_deregister_targets'' [(''title'', JStr ''t'')]))
   \<and> files sample_env ''./deregister_targets-experiment.json'' = None
   \<and> files (snd (call_tool sample_env ''chaos_deregister_targets'' [(''title'', JStr ''t'')]))
        ''./deregister_targets-experiment.json'' \<noteq> None"
  by (simp add: generation_tools_eq required_fields_def list_tools_def call_tool_def
      generate_generic_experiment_def generic_document_def subscript_def bind_def
      mk_ExperimentConfig_def validate_str_def dict_get_def write_and_report_def write_json_def
      sample_env_def Let_def)

subsection \<open>Rollback from state files\<close>

lemma rollback_from_state_strs:
  assumes "map_of args ''state_files'' = Some (JList (map JStr ps))"
  shows "rollback_from_state e args =
           (case rollback_loop e (dict_get args ''working_directory'' (JStr (getcwd e)))
                   (map JStr ps) [] of
              (Inl err, e') \<Rightarrow> (Inl err, e')
            | (Inr results, e') \<Rightarrow> (Inr (text_result (join nl results)), e'))"
  using assms by (simp add: rollback_from_state_def subscript_def py_iter_def Let_def)




text \<open>Where no write of a temporary file fails, the operation leaves the file system as it
  found it, whatever the subprocess does in any round.\<close>

lemma rollback_from_state_files_unchanged:
  assumes "map_of args ''state_files'' = Some (JList (map JStr ps))"
      and "\<forall>t. temp_write e t = Written"
  shows "files (snd (rollback_from_state e args)) = files e"
proof -
  let ?d = "dict_get args ''working_directory'' (JStr (getcwd e))"
  from rollback_loop_strs [of e ?d ps "[]"] obtain lines e' where
    l: "rollback_loop e ?d (map JStr ps) [] = (Inr ([] @ lines), e')" and
    u: "(\<forall>t. temp_write e t = Written) \<longrightarrow> files e' = files e"
    by (elim exE conjE) (rule that)
  from u assms(2) have "files e' = files e" by (rule mp)
  with l show ?thesis by (simp add: rollback_from_state_strs [OF assms(1)])
qed

text \<open>A round whose temporary file is written: the subprocess is run on that file, which
  holds the rollback document, and the file is gone when the round ends, whatever the
  subprocess did.\<close>

lemma rollback_one_temp_file:
  assumes ex: "files e p \<noteq> None"
      and m: "rollback_module (JStr p) = Inr (Some m)"
      and free: "files e (tmp_name (next_tmp e)) = None"
      and w: "temp_write e (tmp_name (next_tmp e)) = Written"
  shows "\<exists>lines e' c.
           rollback_one e d (JStr p) = (Inr lines, e') \<and> calls e' = calls e @ [c]
         \<and> cmd c = [JStr ''chaos'', JStr ''run'', JStr (tmp_name (next_tmp e))]
         \<and> timeout c = 600
         \<and> seen c (tmp_name (next_tmp e)) = Some (dumps e (rollback_experiment (JStr p) m))
         \<and> files e' (tmp_name (next_tmp e)) = None"
proof -
  from rollback_one_attempt [OF ex m free w, of d] obtain lines e' c where
    r: "rollback_one e d (JStr p) = (Inr lines, e')" and f: "files e' = files e" and
    c: "calls e' = calls e @ [c]"
       "cmd c = [JStr ''chaos'', JStr ''run'', JStr (tmp_name (next_tmp e))]"
       "timeout c = 600"
       "seen c (tmp_name (next_tmp e)) = Some (dumps e (rollback_experiment (JStr p) m))"
    by (elim exE conjE) (rule that)
  have g: "files e' (tmp_name (next_tmp e)) = None" using f free by simp
  show ?thesis
    by (intro exI [of _ lines] exI [of _ e'] exI [of _ c] conjI) (rule r c g)+
qed

lemma tmp_name_0: "tmp_name 0 = ''/tmp/tmp0.json''"
  by (simp add: tmp_name_def str_nat.simps)

text \<open>
  C8. The temporary rollback file is not removed on every exit path. It is created with
  \<^verbatim>\<open>delete=False\<close> and written inside a \<^verbatim>\<open>with\<close> block that stands before the inner
  \<^verbatim>\<open>try \<dots> finally\<close>; when the write or the close raises, the exception reaches the outer
  \<^verbatim>\<open>except\<close> without \<^verbatim>\<open>os.unlink\<close> being run. Here the operation is run on one existing state
  file in an environment whose disk is too full to write the temporary file: it returns
  the line \<^verbatim>\<open>Error rolling back ./fail_az.ec2.json: [Errno 28] No space left on device\<close>,
  no subprocess has run, and \<^verbatim>\<open>/tmp/tmp0.json\<close>, absent before, is on disk afterwards.
  (Where the temporary file is written, it is removed whatever the subprocess does:
  \<open>rollback_one_temp_file\<close>, \<open>rollback_from_state_files_unchanged\<close>.)
\<close>

theorem C8_temporary_file_persists_when_its_write_fails:
  "fst (rollback_from_state sample_env_state_full
          [(''state_files'', JList [JStr ''./fail_az.ec2.json''])])
     = Inr (text_result
              ''Error rolling back ./fail_az.ec2.json: [Errno 28] No space left on device'')
 \<and> files sample_env_state_full ''/tmp/tmp0.json'' = None
 \<and> files (snd (rollback_from_state sample_env_state_full
                  [(''state_files'', JList [JStr ''./fail_az.ec2.json''])])) ''/tmp/tmp0.json''
     = Some []
 \<and> calls (snd (rollback_from_state sample_env_state_full
                  [(''state_files'', JList [JStr ''./fail_az.ec2.json''])])) = []"
proof -
  let ?e = sample_env_state_full
  let ?args = "[(''state_files'', JList [JStr ''./fail_az.ec2.json''])]"
  let ?d = "dict_get ?args ''working_directory'' (JStr (getcwd ?e))"
  have n: "next_tmp ?e = 0" and c0: "calls ?e = []"
    and f0: "files ?e ''/tmp/tmp0.json'' = None"
    and ex: "files ?e ''./fail_az.ec2.json'' \<noteq> None"
    and w: "temp_write ?e (tmp_name (next_tmp ?e))
              = WriteFailed ''[Errno 28] No space left on device'' []"
    by (simp_all add: sample_env_state_full_def sample_env_state_def sample_env_def)
  have m: "rollback_module (JStr ''./fail_az.ec2.json'') = Inr (Some ''azchaosaws.ec2.actions'')"
    by (simp add: rollback_module_str sublist_code)
  have free: "files ?e (tmp_name (next_tmp ?e)) = None"
    using f0 by (simp add: n tmp_name_0)
  have one: "rollback_one ?e ?d (JStr ''./fail_az.ec2.json'')
               = (Inr [''Error rolling back '' @ ''./fail_az.ec2.json'' @ '': ''
                         @ ''[Errno 28] No space left on device''],
                  ?e\<lparr>files := (files ?e)(tmp_name (next_tmp ?e) \<mapsto> []),
                     next_tmp := Suc (next_tmp ?e)\<rparr>)"
    by (rule rollback_one_write_failed [OF ex m free w])
  have h: "map_of ?args ''state_files'' = Some (JList (map JStr [''./fail_az.ec2.json'']))"
    by simp
  have r: "rollback_from_state ?e ?args
             = (Inr (text_result
                  ''Error rolling back ./fail_az.ec2.json: [Errno 28] No space left on device''),
                ?e\<lparr>files := (files ?e)(tmp_name (next_tmp ?e) \<mapsto> []),
                   next_tmp := Suc (next_tmp ?e)\<rparr>)"
    unfolding rollback_from_state_strs [OF h] using one by simp
  show ?thesis
    unfolding r using f0 c0 by (simp add: n tmp_name_0)
qed

lemma rollback_experiment_module:
  "\<exists>step. doc_method (rollback_experiment state_file m) = Some (JList [step])
         \<and> step_module step = Some (JStr m)
         \<and> step_arguments step = Some (JObj [(''state_path'', state_file)])"
  by (simp add: rollback_experiment_def doc_method_def jget_def step_module_def
      step_arguments_def)

text \<open>
  C10. In the routing of a state file path \<open>p\<close> the test for \<^verbatim>\<open>ec2\<close> comes first: a path that
  contains \<^verbatim>\<open>ec2\<close> is routed to \<^verbatim>\<open>azchaosaws.ec2.actions\<close>, also when it contains \<^verbatim>\<open>asg\<close>; a
  path that contains \<^verbatim>\<open>asg\<close> and not \<^verbatim>\<open>ec2\<close> is routed to \<^verbatim>\<open>azchaosaws.asg.actions\<close>; an
  existing path with neither is skipped with the line
  \<^verbatim>\<open>Warning: Unknown state file type: p\<close> and no change of the environment. For an
  existing path that is routed to module \<open>m\<close>, with a free temporary name: when the
  temporary file is written, the document the subprocess is run on (the temporary file
  the call sees) is the rollback document whose one step has provider module \<open>m\<close> and the
  state path as its argument; when its write raises, no subprocess is run and the round
  reports the error.
\<close>

theorem C10_ec2_test_takes_priority:
  "(sublist ''ec2'' p \<longrightarrow> rollback_module (JStr p) = Inr (Some ''azchaosaws.ec2.actions''))
 \<and> (\<not> sublist ''ec2'' p \<and> sublist ''asg'' p
      \<longrightarrow> rollback_module (JStr p) = Inr (Some ''azchaosaws.asg.actions''))
 \<and> (\<not> sublist ''ec2'' p \<and> \<not> sublist ''asg'' p \<and> files e p \<noteq> None
      \<longrightarrow> rollback_one e d (JStr p)
            = (Inr [''Warning: Unknown state file type: '' @ p], e))
 \<and> (files e p \<noteq> None \<and> rollback_module (JStr p) = Inr (Some m)
        \<and> files e (tmp_name (next_tmp e)) = None
        \<and> temp_write e (tmp_name (next_tmp e)) = Written
      \<longrightarrow> (\<exists>lines e' c step.
             rollback_one e d (JStr p) = (Inr lines, e') \<and> calls e' = calls e @ [c]
           \<and> cmd c = [JStr ''chaos'', JStr ''run'', JStr (tmp_name (next_tmp e))]
           \<and> seen c (tmp_name (next_tmp e)) = Some (dumps e (rollback_experiment (JStr p) m))
           \<and> doc_method (rollback_experiment (JStr p) m) = Some (JList [step])
           \<and> step_module step = Some (JStr m)
           \<and> step_arguments step = Some (JObj [(''state_path'', JStr p)])))
 \<and> (files e p \<noteq> None \<and> rollback_module (JStr p) = Inr (Some m)
        \<and> files e (tmp_name (next_tmp e)) = None
        \<and> temp_write e (tmp_name (next_tmp e)) = WriteFailed msg part
      \<longrightarrow> (\<exists>e'. rollback_one e d (JStr p)
                   = (Inr [''Error rolling back '' @ p @ '': '' @ msg], e')
               \<and> calls e' = calls e))"
proof (intro conjI impI)
  show "rollback_module (JStr p) = Inr (Some ''azchaosaws.ec2.actions'')" if "sublist ''ec2'' p"
    using that by (simp add: rollback_module_str)
  show "rollback_module (JStr p) = Inr (Some ''azchaosaws.asg.actions'')"
    if "\<not> sublist ''ec2'' p \<and> sublist ''asg'' p"
    using that by (simp add: rollback_module_str)
  show "rollback_one e d (JStr p) = (Inr [''Warning: Unknown state file type: '' @ p], e)"
    if "\<not> sublist ''ec2'' p \<and> \<not> sublist ''asg'' p \<and> files e p \<noteq> None"
    using that rollback_one_unknown [of e p d] by simp
  show "\<exists>lines e' c step.
             rollback_one e d (JStr p) = (Inr lines, e') \<and> calls e' = calls e @ [c]
           \<and> cmd c = [JStr ''chaos'', JStr ''run'', JStr (tmp_name (next_tmp e))]
           \<and> seen c (tmp_name (next_tmp e)) = Some (dumps e (rollback_experiment (JStr p) m))
           \<and> doc_method (rollback_experiment (JStr p) m) = Some (JList [step])
           \<and> step_module step = Some (JStr m)
           \<and> step_arguments step = Some (JObj [(''state_path'', JStr p)])"
    if h: "files e p \<noteq> None \<and> rollback_module (JStr p) = Inr (Some m)
        \<and> files e (tmp_name (next_tmp e)) = None
        \<and> temp_write e (tmp_name (next_tmp e)) = Written"
  proof -
    from h rollback_one_temp_file [of e p m d] obtain lines e' c where
      r: "rollback_one e d (JStr p) = (Inr lines, e')" "calls e' = calls e @ [c]"
         "cmd c = [JStr ''chaos'', JStr ''run'', JStr (tmp_name (next_tmp e))]"
         "seen c (tmp_name (next_tmp e)) = Some (dumps e (rollback_experiment (JStr p) m))"
      by blast
    from rollback_experiment_module [of "JStr p" m] obtain step where
      s: "doc_method (rollback_experiment (JStr p) m) = Some (JList [step])"
         "step_module step = Some (JStr m)"
         "step_arguments step = Some (JObj [(''state_path'', JStr p)])"
      by (elim exE conjE) (rule that)
    show ?thesis
      by (intro exI [of _ lines] exI [of _ e'] exI [of _ c] exI [of _ step] conjI) (rule r s)+
  qed
  show "\<exists>e'. rollback_one e d (JStr p)
                   = (Inr [''Error rolling back '' @ p @ '': '' @ msg], e')
               \<and> calls e' = calls e"
    if h: "files e p \<noteq> None \<and> rollback_module (JStr p) = Inr (Some m)
        \<and> files e (tmp_name (next_tmp e)) = None
        \<and> temp_write e (tmp_name (next_tmp e)) = WriteFailed msg part"
  proof -
    from h have "rollback_one e d (JStr p) =
           (Inr [''Error rolling back '' @ p @ '': '' @ msg],
            e\<lparr>files := (files e)(tmp_name (next_tmp e) \<mapsto> part),
              next_tmp := Suc (next_tmp e)\<rparr>)"
      by (intro rollback_one_write_failed) simp_all
    then show ?thesis by simp
  qed
qed

text \<open>Witness for C10: three existing state files, one whose name contains both \<^verbatim>\<open>asg\<close> and
  \<^verbatim>\<open>ec2\<close>, one with \<^verbatim>\<open>asg\<close> only and one with neither; and the state file of an
  environment in which the temporary file cannot be written.\<close>

theorem C10_witness:
  "sublist ''ec2'' ''./s.asg.ec2.json'' \<and> sublist ''asg'' ''./s.asg.ec2.json''
 \<and> rollback_module (JStr ''./s.asg.ec2.json'') = Inr (Some ''azchaosaws.ec2.actions'')
 \<and> rollback_module (JStr ''./s.asg.json'') = Inr (Some ''azchaosaws.asg.actions'')
 \<and> rollback_one sample_env_routes JNull (JStr ''./s.json'')
      = (Inr [''Warning: Unknown state file type: ./s.json''], sample_env_routes)
 \<and> (\<exists>lines e' c step.
       rollback_one sample_env_routes JNull (JStr ''./s.asg.ec2.json'') = (Inr lines, e')
     \<and> calls e' = calls sample_env_routes @ [c]
     \<and> seen c ''/tmp/tmp0.json''
          = Some (dumps sample_env_routes
                    (rollback_experiment (JStr ''./s.asg.ec2.json'') ''azchaosaws.ec2.actions''))
     \<and> doc_method (rollback_experiment (JStr ''./s.asg.ec2.json'') ''azchaosaws.ec2.actions'')
          = Some (JList [step])
     \<and> step_module step = Some (JStr ''azchaosaws.ec2.actions''))
 \<and> (\<exists>e'. rollback_one sample_env_state_full JNull (JStr ''./fail_az.ec2.json'')
             = (Inr [''Error rolling back ./fail_az.ec2.json: [Errno 28] No space left on device''],
                e')
         \<and> calls e' = calls sample_env_state_full)"
proof -
  let ?e = sample_env_routes
  let ?f = sample_env_state_full
  have s1: "sublist ''ec2'' ''./s.asg.ec2.json''" and s2: "sublist ''asg'' ''./s.asg.ec2.json''"
    and s3: "\<not> sublist ''ec2'' ''./s.asg.json'' \<and> sublist ''asg'' ''./s.asg.json''"
    and s5: "sublist ''ec2'' ''./fail_az.ec2.json''"
    by (simp_all add: sublist_code)
  have n: "next_tmp ?e = 0" by (simp add: sample_env_routes_def sample_env_def)
  have nf: "next_tmp ?f = 0"
    by (simp add: sample_env_state_full_def sample_env_state_def sample_env_def)
  have s4: "\<not> sublist ''ec2'' ''./s.json'' \<and> \<not> sublist ''asg'' ''./s.json''
            \<and> files ?e ''./s.json'' \<noteq> None"
    by (simp add: sublist_code sample_env_routes_def sample_env_def)
  note k1 = C10_ec2_test_takes_priority
    [of "''./s.asg.ec2.json''" ?e JNull "''azchaosaws.ec2.actions''",
     THEN conjunct1, THEN mp, OF s1]
  note k2 = C10_ec2_test_takes_priority
    [of "''./s.asg.json''" ?e JNull "''azchaosaws.asg.actions''",
     THEN conjunct2, THEN conjunct1, THEN mp, OF s3]
  note k3 = C10_ec2_test_takes_priority
    [of "''./s.json''" ?e JNull "''azchaosaws.ec2.actions''",
     THEN conjunct2, THEN conjunct2, THEN conjunct1, THEN mp, OF s4]
  have a: "files ?e ''./s.asg.ec2.json'' \<noteq> None
         \<and> rollback_module (JStr ''./s.asg.ec2.json'') = Inr (Some ''azchaosaws.ec2.actions'')
         \<and> files ?e (tmp_name (next_tmp ?e)) = None
         \<and> temp_write ?e (tmp_name (next_tmp ?e)) = Written"
    using k1 by (simp add: n tmp_name_0 sample_env_routes_def sample_env_def)
  note k4 = C10_ec2_test_takes_priority
    [of "''./s.asg.ec2.json''" ?e JNull "''azchaosaws.ec2.actions''",
     THEN conjunct2, THEN conjunct2, THEN conjunct2, THEN conjunct1, THEN mp, OF a]
  note k5m = C10_ec2_test_takes_priority
    [of "''./fail_az.ec2.json''" ?f JNull "''azchaosaws.ec2.actions''",
     THEN conjunct1, THEN mp, OF s5]
  have b: "files ?f ''./fail_az.ec2.json'' \<noteq> None
         \<and> rollback_module (JStr ''./fail_az.ec2.json'') = Inr (Some ''azchaosaws.ec2.actions'')
         \<and> files ?f (tmp_name (next_tmp ?f)) = None
         \<and> temp_write ?f (tmp_name (next_tmp ?f))
             = WriteFailed ''[Errno 28] No space left on device'' []"
    using k5m
    by (simp add: nf tmp_name_0 sample_env_state_full_def sample_env_state_def sample_env_def)
  note k5 = C10_ec2_test_takes_priority
    [of "''./fail_az.ec2.json''" ?f JNull "''azchaosaws.ec2.actions''"
        "''[Errno 28] No space left on device''" "[]",
     THEN conjunct2, THEN conjunct2, THEN conjunct2, THEN conjunct2, THEN mp, OF b]
  from k4 obtain lines e' c step where
    r: "rollback_one ?e JNull (JStr ''./s.asg.ec2.json'') = (Inr lines, e')"
       "calls e' = calls ?e @ [c]" and
    s: "seen c (tmp_name (next_tmp ?e))
          = Some (dumps ?e (rollback_experiment (JStr ''./s.asg.ec2.json'')
                              ''azchaosaws.ec2.actions''))" and
    d: "doc_method (rollback_experiment (JStr ''./s.asg.ec2.json'') ''azchaosaws.ec2.actions'')
          = Some (JList [step])"
       "step_module step = Some (JStr ''azchaosaws.ec2.actions'')"
    by (elim exE conjE) (rule that)
  have s': "seen c ''/tmp/tmp0.json''
          = Some (dumps ?e (rollback_experiment (JStr ''./s.asg.ec2.json'')
                              ''azchaosaws.ec2.actions''))"
    using s by (simp add: n tmp_name_0)
  have k3': "rollback_one ?e JNull (JStr ''./s.json'')
               = (Inr [''Warning: Unknown state file type: ./s.json''], ?e)"
    using k3 by simp
  have k4': "\<exists>lines e' c step.
       rollback_one ?e JNull (JStr ''./s.asg.ec2.json'') = (Inr lines, e')
     \<and> calls e' = calls ?e @ [c]
     \<and> seen c ''/tmp/tmp0.json''
          = Some (dumps ?e
                    (rollback_experiment (JStr ''./s.asg.ec2.json'') ''azchaosaws.ec2.actions''))
     \<and> doc_method (rollback_experiment (JStr ''./s.asg.ec2.json'') ''azchaosaws.ec2.actions'')
          = Some (JList [step])
     \<and> step_module step = Some (JStr ''azchaosaws.ec2.actions'')"
    by (intro conjI exI [of _ lines] exI [of _ e'] exI [of _ c] exI [of _ step]) (rule r s' d)+
  have k5': "\<exists>e'. rollback_one ?f JNull (JStr ''./fail_az.ec2.json'')
             = (Inr [''Error rolling back ./fail_az.ec2.json: [Errno 28] No space left on device''],
                e')
         \<and> calls e' = calls ?f"
    using k5 by simp
  show ?thesis
    by (intro conjI) (rule s1 s2 k1 k2 k3' k4' k5')+
qed

end
